theory Spec2Isabelle
  imports Main "HOL-Library.Word"
begin

section \<open>ethers-multisend: encoding of single calls and of multiSend batches\<close>

text \<open>
  The development follows \<^verbatim>\<open>src/src/encodeSingle.ts\<close>, which holds two modules:
  the single-call encoder (\<^verbatim>\<open>encodeSingle\<close> and its helpers) and the batch layer
  (\<^verbatim>\<open>coerceTransactionInput\<close>, \<^verbatim>\<open>encodePacked\<close>, \<^verbatim>\<open>encodeMultiSend\<close>,
  \<^verbatim>\<open>MultiSender.multiSend\<close>). Both call into the ethers library, which is not part of
  the repository: the functions of it that the source calls are written out first, as far
  as the source uses them.

  Representation of the JavaScript data:
  \<^item> addresses and calldata are strings, as in the source (\<^verbatim>\<open>to: string\<close>,
    \<^verbatim>\<open>data: string\<close>); calldata is a hex string \<^verbatim>\<open>0x...\<close>;
  \<^item> a BigNumberish amount is the non-negative integer it denotes (\<open>nat\<close>), whatever
    its JavaScript form (number, decimal string, BigNumber);
  \<^item> an optional field is an \<open>option\<close>, \<open>None\<close> for \<^verbatim>\<open>undefined\<close>;
  \<^item> an exception is the \<open>Inl\<close> of a sum type.
\<close>

subsection \<open>Bytes and hex strings (@ethersproject/bytes)\<close>

type_synonym byte = "8 word"

datatype error =
    InvalidHexString
  | ValueOutOfRange
  | InvalidAddress
  | InvalidValue
  | LengthMismatch
  | NoMatchingFunction
  | MultipleMatchingFunctions

text \<open>Sequencing of computations that may throw: the first exception wins.\<close>

definition bind_err :: "error + 'a \<Rightarrow> ('a \<Rightarrow> error + 'b) \<Rightarrow> error + 'b" where
  "bind_err m f = (case m of Inl e \<Rightarrow> Inl e | Inr x \<Rightarrow> f x)"

fun collect :: "(error + 'a) list \<Rightarrow> error + 'a list" where
  "collect [] = Inr []"
| "collect (m # ms) =
     (case m of
        Inl e \<Rightarrow> Inl e
      | Inr x \<Rightarrow> (case collect ms of Inl e \<Rightarrow> Inl e | Inr xs \<Rightarrow> Inr (x # xs)))"

definition hexChar :: "nat \<Rightarrow> char" where
  "hexChar n = ''0123456789abcdef'' ! n"

text \<open>The value of a hex digit; both cases are accepted (\<^verbatim>\<open>/^0x[0-9A-Fa-f]*$/\<close>).\<close>

definition hexVal :: "char \<Rightarrow> nat option" where
  "hexVal c =
     (let n = (of_char c :: nat)
      in if 48 \<le> n \<and> n \<le> 57 then Some (n - 48)
         else if 97 \<le> n \<and> n \<le> 102 then Some (n - 87)
         else if 65 \<le> n \<and> n \<le> 70 then Some (n - 55)
         else None)"

definition isHexString :: "string \<Rightarrow> bool" where
  "isHexString s = (take 2 s = ''0x'' \<and> list_all (\<lambda>c. hexVal c \<noteq> None) (drop 2 s))"

fun hexPairs :: "string \<Rightarrow> byte list option" where
  "hexPairs [] = Some []"
| "hexPairs [c] = None"
| "hexPairs (c # d # cs) =
     (case (hexVal c, hexVal d, hexPairs cs) of
        (Some h, Some l, Some bs) \<Rightarrow> Some (of_nat (16 * h + l) # bs)
      | _ \<Rightarrow> None)"

text \<open>
  \<^verbatim>\<open>arrayify\<close> on a string: the bytes of a hex string; it throws on a string that is
  not a hex string and on one with an odd number of digits.
\<close>

definition arrayify :: "string \<Rightarrow> error + byte list" where
  "arrayify s =
     (if take 2 s = ''0x''
      then (case hexPairs (drop 2 s) of None \<Rightarrow> Inl InvalidHexString | Some bs \<Rightarrow> Inr bs)
      else Inl InvalidHexString)"

definition hexByte :: "byte \<Rightarrow> string" where
  "hexByte b = [hexChar (unat b div 16), hexChar (unat b mod 16)]"

text \<open>\<^verbatim>\<open>hexlify\<close> on bytes: \<^verbatim>\<open>0x\<close> and two lower-case digits for each byte.\<close>

definition hexlify :: "byte list \<Rightarrow> string" where
  "hexlify bs = ''0x'' @ concat (map hexByte bs)"

text \<open>\<^verbatim>\<open>hexDataLength\<close>: the number of bytes of a hex string, \<^verbatim>\<open>null\<close> for anything else.\<close>

definition hexDataLength :: "string \<Rightarrow> nat option" where
  "hexDataLength s =
     (if \<not> isHexString s \<or> odd (length s) then None else Some ((length s - 2) div 2))"

text \<open>Big-endian bytes of a number at a fixed width of \<open>w\<close> bytes.\<close>

fun be_bytes :: "nat \<Rightarrow> nat \<Rightarrow> byte list" where
  "be_bytes 0 n = []"
| "be_bytes (Suc w) n = be_bytes w (n div 256) @ [of_nat (n mod 256)]"

definition from_be :: "byte list \<Rightarrow> nat" where
  "from_be bs = foldl (\<lambda>a b. 256 * a + unat b) 0 bs"

text \<open>
  A number left-padded to \<open>w\<close> bytes (\<^verbatim>\<open>zeroPad(BigNumber.from(v), w)\<close>): it throws when
  the number needs more than \<open>w\<close> bytes.
\<close>

definition zeroPad :: "nat \<Rightarrow> nat \<Rightarrow> error + byte list" where
  "zeroPad n w = (if n < 256 ^ w then Inr (be_bytes w n) else Inl ValueOutOfRange)"

subsection \<open>The ABI coder (@ethersproject/abi)\<close>

text \<open>
  The library is not part of the repository; its coder is written out here as the
  contract ABI defines it (32-byte words, heads and tails), in the shape of the
  library's coders. Two of its services need Keccak-256 and are taken as parameters:
  \<^item> \<open>getAddress\<close>, the address parser (hex form with its checksum rule, ICAP form): the
    160-bit value of an address string, \<open>None\<close> where the library throws;
  \<^item> \<open>getSighash\<close>, the four-byte selector of a canonical function signature.
  Every theorem below holds for all of them.
\<close>

record AbiLib =
  getAddress :: "string \<Rightarrow> 160 word option"
  getSighash :: "string \<Rightarrow> 32 word"

text \<open>Parameter types of a parsed fragment (\<^verbatim>\<open>ParamType\<close>); widths of integers in bits.\<close>

datatype abi_type =
    TUInt nat
  | TInt nat
  | TAddress
  | TBool
  | TBytes
  | TString
  | TFixedBytes nat
  | TArray abi_type
  | TFixedArray abi_type nat
  | TTuple "abi_type list"

text \<open>
  JavaScript values handed to the coder: a number (by its integer value), a string (an
  address, a hex string or a text), a boolean, an array, and \<open>VObject\<close>, an object that
  is none of these (a function, a plain object), given by its \<^verbatim>\<open>length\<close> property:
  the number of parameters of a function, \<open>None\<close> where there is no such property.
  A numeric string for an integer, which the library also takes, is not represented:
  an integer is a \<open>VNum\<close>. The components of a tuple type have no names here, and
  for such a tuple the library takes an array only. \<open>VNum\<close> is a JavaScript number, so \<open>VNum 0\<close> is
  falsy; a BigNumber or a numeric string of value 0 is truthy, and \<^verbatim>\<open>||\<close> then keeps it
  where it replaces the number 0 by the default of an integer, which is 0 as well.
\<close>

datatype js_value =
    VNum int
  | VStr string
  | VBool bool
  | VList "js_value list"
  | VObject "nat option"

text \<open>JavaScript truthiness, which \<^verbatim>\<open>||\<close> and the boolean coder test.\<close>

fun truthy :: "js_value \<Rightarrow> bool" where
  "truthy (VNum i) = (i \<noteq> 0)"
| "truthy (VStr s) = (s \<noteq> [])"
| "truthy (VBool b) = b"
| "truthy (VList vs) = True"
| "truthy (VObject len) = True"

fun dynamic :: "abi_type \<Rightarrow> bool" where
  "dynamic TBytes = True"
| "dynamic TString = True"
| "dynamic (TArray t) = True"
| "dynamic (TFixedArray t k) = dynamic t"
| "dynamic (TTuple ts) = list_ex dynamic ts"
| "dynamic _ = False"

text \<open>
  One 32-byte word for a number below \<open>2 ^ 256\<close>: an integer value is checked against
  the width of its type before it is written (a width is at most 256 bits in a parsed
  type), and a length or an offset is far smaller in any run.
\<close>

definition word32 :: "nat \<Rightarrow> byte list" where
  "word32 n = be_bytes 32 n"

text \<open>\<^verbatim>\<open>writeBytes\<close>: bytes are padded with zeros on the right to a multiple of 32.\<close>

definition padRight :: "byte list \<Rightarrow> byte list" where
  "padRight bs = bs @ replicate ((32 - length bs mod 32) mod 32) 0"

text \<open>
  The library's \<^verbatim>\<open>pack(writer, coders, values)\<close>: a static value is written in place,
  a dynamic one leaves a 32-byte offset in the head and goes to the tail; offsets count
  from the start of the head. An entry is (dynamic?, encoding).
\<close>

fun heads :: "nat \<Rightarrow> (bool \<times> byte list) list \<Rightarrow> byte list" where
  "heads off [] = []"
| "heads off ((d, e) # xs) =
     (if d then word32 off @ heads (off + length e) xs else e @ heads off xs)"

definition headLength :: "(bool \<times> byte list) list \<Rightarrow> nat" where
  "headLength xs = sum_list (map (\<lambda>(d, e). if d then 32 else length e) xs)"

definition packWriter :: "(bool \<times> byte list) list \<Rightarrow> byte list" where
  "packWriter xs = heads (headLength xs) xs @ concat (map snd (filter fst xs))"

text \<open>
  \<^verbatim>\<open>arrayify\<close> on any value, as the coders of bytes call it: a hex string gives its
  bytes; a number below \<open>2 ^ 53 - 1\<close> its big-endian bytes, one zero byte for 0; an
  array-like value whose \<^verbatim>\<open>length\<close> elements are all bytes gives these, which makes no
  bytes of a function of no parameters; anything else throws.
\<close>

function natBytes :: "nat \<Rightarrow> byte list" where
  "natBytes n = (if n = 0 then [] else natBytes (n div 256) @ [of_nat (n mod 256)])"
  by pat_completeness auto
termination
  by (relation "measure id") auto

fun byteOf :: "js_value \<Rightarrow> byte option" where
  "byteOf (VNum i) = (if 0 \<le> i \<and> i < 256 then Some (of_int i) else None)"
| "byteOf _ = None"

fun bytesLike :: "js_value \<Rightarrow> error + byte list" where
  "bytesLike (VStr s) = arrayify s"
| "bytesLike (VNum i) =
     (if 0 \<le> i \<and> i < 2 ^ 53 - 1
      then Inr (if i = 0 then [0] else natBytes (nat i))
      else Inl InvalidValue)"
| "bytesLike (VList vs) =
     (if list_all (\<lambda>v. byteOf v \<noteq> None) vs then Inr (map (\<lambda>v. the (byteOf v)) vs)
      else Inl InvalidValue)"
| "bytesLike (VObject (Some 0)) = Inr []"
| "bytesLike _ = Inl InvalidValue"

text \<open>
  \<^verbatim>\<open>toUtf8Bytes\<close> on any value, as the coder of strings calls it: it walks the
  \<^verbatim>\<open>length\<close> characters of its argument. A text gives its characters; a value with no
  \<^verbatim>\<open>length\<close> (a number, a boolean, a plain object) or with length 0 gives no bytes;
  any other value has no character to read, a TypeError.
\<close>

fun toUtf8Bytes :: "js_value \<Rightarrow> error + byte list" where
  "toUtf8Bytes (VStr s) = Inr (map of_char s)"
| "toUtf8Bytes (VNum i) = Inr []"
| "toUtf8Bytes (VBool b) = Inr []"
| "toUtf8Bytes (VList vs) = (if vs = [] then Inr [] else Inl InvalidValue)"
| "toUtf8Bytes (VObject len) =
     (case len of None \<Rightarrow> Inr [] | Some n \<Rightarrow> if n = 0 then Inr [] else Inl InvalidValue)"

fun encode :: "AbiLib \<Rightarrow> abi_type \<Rightarrow> js_value \<Rightarrow> error + byte list"
and encodeAll :: "AbiLib \<Rightarrow> abi_type list \<Rightarrow> js_value list \<Rightarrow> error + (bool \<times> byte list) list"
where
  "encode L (TUInt n) v =
     (case v of
        VNum i \<Rightarrow> if 0 \<le> i \<and> i < 2 ^ n then Inr (word32 (nat i)) else Inl ValueOutOfRange
      | _ \<Rightarrow> Inl InvalidValue)"
| "encode L (TInt n) v =
     (case v of
        VNum i \<Rightarrow>
          if - (2 ^ (n - 1)) \<le> i \<and> i < 2 ^ (n - 1) then Inr (word32 (nat (i mod 2 ^ 256)))
          else Inl ValueOutOfRange
      | _ \<Rightarrow> Inl InvalidValue)"
| "encode L TAddress v =
     (case v of
        VStr s \<Rightarrow>
          (case getAddress L s of None \<Rightarrow> Inl InvalidAddress | Some a \<Rightarrow> Inr (word32 (unat a)))
      | _ \<Rightarrow> Inl InvalidAddress)"
| "encode L TBool v = Inr (word32 (if truthy v then 1 else 0))"
| "encode L TBytes v =
     bind_err (bytesLike v) (\<lambda>bs. Inr (word32 (length bs) @ padRight bs))"
| "encode L TString v =
     bind_err (toUtf8Bytes v) (\<lambda>bs. Inr (word32 (length bs) @ padRight bs))"
| "encode L (TFixedBytes k) v =
     bind_err (bytesLike v)
       (\<lambda>bs. if length bs = k then Inr (padRight bs) else Inl LengthMismatch)"
| "encode L (TArray t) v =
     (case v of
        VList vs \<Rightarrow>
          bind_err (collect (map (encode L t) vs))
            (\<lambda>es. Inr (word32 (length vs) @ packWriter (map (Pair (dynamic t)) es)))
      | _ \<Rightarrow> Inl InvalidValue)"
| "encode L (TFixedArray t k) v =
     (case v of
        VList vs \<Rightarrow>
          if length vs \<noteq> k then Inl LengthMismatch
          else bind_err (collect (map (encode L t) vs))
                 (\<lambda>es. Inr (packWriter (map (Pair (dynamic t)) es)))
      | _ \<Rightarrow> Inl InvalidValue)"
| "encode L (TTuple ts) v =
     (case v of
        VList vs \<Rightarrow>
          if length vs \<noteq> length ts then Inl LengthMismatch
          else bind_err (encodeAll L ts vs) (\<lambda>es. Inr (packWriter es))
      | _ \<Rightarrow> Inl InvalidValue)"
| "encodeAll L [] [] = Inr []"
| "encodeAll L (t # ts) (v # vs) =
     bind_err (encode L t v)
       (\<lambda>e. bind_err (encodeAll L ts vs) (\<lambda>es. Inr ((dynamic t, e) # es)))"
| "encodeAll L _ _ = Inl LengthMismatch"

text \<open>\<^verbatim>\<open>coder.defaultValue()\<close> of each coder.\<close>

fun defaultValue :: "abi_type \<Rightarrow> js_value" where
  "defaultValue (TUInt n) = VNum 0"
| "defaultValue (TInt n) = VNum 0"
| "defaultValue TAddress = VStr ''0x0000000000000000000000000000000000000000''"
| "defaultValue TBool = VBool False"
| "defaultValue TBytes = VStr ''0x''"
| "defaultValue TString = VStr []"
| "defaultValue (TFixedBytes k) = VStr (hexlify (replicate k 0))"
| "defaultValue (TArray t) = VList []"
| "defaultValue (TFixedArray t k) = VList (replicate k (defaultValue t))"
| "defaultValue (TTuple ts) = VList (map defaultValue ts)"

text \<open>
  An \<^verbatim>\<open>Interface\<close> is modelled after parsing: its function fragments in declaration
  order, each with its canonical signature (\<^verbatim>\<open>name(type,...)\<close>, the key of
  \<^verbatim>\<open>iface.functions\<close>) and its named inputs.
\<close>

record FunctionFragment =
  signature :: string
  inputs :: "(string \<times> abi_type) list"

type_synonym Interface = "FunctionFragment list"

text \<open>\<^verbatim>\<open>iface.functions[sig]\<close>; of two fragments with one signature the first is kept.\<close>

definition functionsOf :: "Interface \<Rightarrow> string \<Rightarrow> FunctionFragment option" where
  "functionsOf iface sig = find (\<lambda>f. signature f = sig) iface"

definition sighashBytes :: "AbiLib \<Rightarrow> string \<Rightarrow> byte list" where
  "sighashBytes L sig = be_bytes 4 (unat (getSighash L sig))"

text \<open>
  \<^verbatim>\<open>iface.getFunction(nameOrSignatureOrSighash)\<close>: a hex string is looked up as a
  selector, a string without a parenthesis as a bare name (which must be unambiguous),
  anything else as a signature; \<open>keys\<close> are the signatures in the order of their first
  declaration. The key is compared as it is; the library also trims a
  bare name and brings a signature to canonical form, which makes no difference for the
  keys the source passes: its literals, and a signature that \<^verbatim>\<open>iface.functions\<close> has
  found before.
\<close>

definition getFunction :: "AbiLib \<Rightarrow> Interface \<Rightarrow> string \<Rightarrow> error + FunctionFragment" where
  "getFunction L iface key =
     (let keys = rev (remdups (rev (map signature iface))) in
      if isHexString key
      then (case find (\<lambda>k. key = hexlify (sighashBytes L k)) keys of
              None \<Rightarrow> Inl NoMatchingFunction
            | Some k \<Rightarrow>
                (case functionsOf iface k of
                   None \<Rightarrow> Inl NoMatchingFunction
                 | Some f \<Rightarrow> Inr f))
      else if CHR ''('' \<notin> set key
      then (case filter (\<lambda>k. takeWhile (\<lambda>c. c \<noteq> CHR ''('') k = key) keys of
              [] \<Rightarrow> Inl NoMatchingFunction
            | [k] \<Rightarrow>
                (case functionsOf iface k of
                   None \<Rightarrow> Inl NoMatchingFunction
                 | Some f \<Rightarrow> Inr f)
            | _ \<Rightarrow> Inl MultipleMatchingFunctions)
      else (case functionsOf iface key of
              None \<Rightarrow> Inl NoMatchingFunction
            | Some f \<Rightarrow> Inr f))"

text \<open>\<^verbatim>\<open>iface.encodeFunctionData\<close>: the selector, then the arguments as one tuple.\<close>

definition encodeFunctionData ::
  "AbiLib \<Rightarrow> Interface \<Rightarrow> string \<Rightarrow> js_value list \<Rightarrow> error + string" where
  "encodeFunctionData L iface key vs =
     bind_err (getFunction L iface key)
       (\<lambda>f. bind_err (encode L (TTuple (map snd (inputs f))) (VList vs))
          (\<lambda>args. Inr (hexlify (sighashBytes L (signature f) @ args))))"

subsection \<open>The single-call encoder\<close>

text \<open>
  Modelled from the spec: the declarations of \<^verbatim>\<open>types.ts\<close>, which is not under
  \<^verbatim>\<open>src/\<close>. \<^verbatim>\<open>TransactionInput\<close> is the tagged union of the spec's data model,
  with the fields the source reads, in this order:
  \<^item> \<open>TransferFunds to amount token\<close> (\<open>token = None\<close> for \<^verbatim>\<open>null\<close>),
  \<^item> \<open>TransferCollectible from to tokenId address\<close>,
  \<^item> \<open>CallContract to value abi functionSignature inputValues\<close>,
  \<^item> \<open>Raw to value data\<close>;
  \<^verbatim>\<open>MetaTransaction\<close> is the normalized call \<^verbatim>\<open>{to, value, data}\<close>.
\<close>

datatype TransactionInput =
    TransferFunds string nat "string option"
  | TransferCollectible string string nat string
  | CallContract string "nat option" Interface string "string \<Rightarrow> js_value option"
  | Raw string "nat option" "string option"

record MetaTransaction =
  to :: string
  "value" :: nat
  data :: string

definition erc20Interface :: Interface where
  "erc20Interface =
     [\<lparr>signature = ''transfer(address,uint256)'',
       inputs = [(''recipient'', TAddress), (''amount'', TUInt 256)]\<rparr>]"

definition encodeErc20Transfer :: "AbiLib \<Rightarrow> string \<Rightarrow> nat \<Rightarrow> error + string" where
  "encodeErc20Transfer L tx_to tx_amount =
     encodeFunctionData L erc20Interface ''transfer(address,uint256)''
       [VStr tx_to, VNum (int tx_amount)]"

definition erc721Interface :: Interface where
  "erc721Interface =
     [\<lparr>signature = ''safeTransferFrom(address,address,uint256)'',
       inputs = [(''_from'', TAddress), (''_to'', TAddress), (''_tokenId'', TUInt 256)]\<rparr>]"

definition encodeErc721Transfer :: "AbiLib \<Rightarrow> string \<Rightarrow> string \<Rightarrow> nat \<Rightarrow> error + string" where
  "encodeErc721Transfer L tx_from tx_to tx_tokenId =
     encodeFunctionData L erc721Interface ''safeTransferFrom(address,address,uint256)''
       [VStr tx_from, VStr tx_to, VNum (int tx_tokenId)]"

text \<open>
  The input values of a contract call are a plain JavaScript object (an object literal,
  parsed JSON), given here by its own properties. A property lookup
  \<^verbatim>\<open>obj[name]\<close> that finds no own property goes on to the members of
  \<^verbatim>\<open>Object.prototype\<close>: eleven functions, and \<^verbatim>\<open>__proto__\<close>, which is the prototype
  object itself.
\<close>

definition objectPrototype :: "string \<Rightarrow> js_value option" where
  "objectPrototype name =
     map_of
       [(''constructor'', VObject (Some 1)),
        (''__defineGetter__'', VObject (Some 2)),
        (''__defineSetter__'', VObject (Some 2)),
        (''hasOwnProperty'', VObject (Some 1)),
        (''__lookupGetter__'', VObject (Some 1)),
        (''__lookupSetter__'', VObject (Some 1)),
        (''isPrototypeOf'', VObject (Some 1)),
        (''propertyIsEnumerable'', VObject (Some 1)),
        (''toString'', VObject (Some 0)),
        (''valueOf'', VObject (Some 0)),
        (''toLocaleString'', VObject (Some 0)),
        (''__proto__'', VObject None)] name"

definition getProperty :: "(string \<Rightarrow> js_value option) \<Rightarrow> string \<Rightarrow> js_value option" where
  "getProperty own name = (case own name of None \<Rightarrow> objectPrototype name | Some v \<Rightarrow> Some v)"

text \<open>\<^verbatim>\<open>supplied || fallback\<close> on an input value that may be absent.\<close>

definition orDefault :: "js_value option \<Rightarrow> js_value \<Rightarrow> js_value" where
  "orDefault supplied fallback =
     (case supplied of None \<Rightarrow> fallback | Some v \<Rightarrow> if truthy v then v else fallback)"

text \<open>
  \<^verbatim>\<open>encodeFunctionCall\<close>; \<open>tx_inputValues\<close> holds the own properties of
  \<^verbatim>\<open>tx.inputValues\<close>, and \<^verbatim>\<open>tx.inputValues[input.name]\<close> is the property lookup.
  Reading \<^verbatim>\<open>.inputs\<close> of a function the interface does not have is a TypeError,
  reported here as \<open>NoMatchingFunction\<close>.
\<close>

definition encodeFunctionCall ::
  "AbiLib \<Rightarrow> Interface \<Rightarrow> string \<Rightarrow> (string \<Rightarrow> js_value option) \<Rightarrow> error + string" where
  "encodeFunctionCall L tx_abi tx_functionSignature tx_inputValues =
     (case functionsOf tx_abi tx_functionSignature of
        None \<Rightarrow> Inl NoMatchingFunction
      | Some f \<Rightarrow>
          encodeFunctionData L tx_abi tx_functionSignature
            (map (\<lambda>(name, ty). orDefault (getProperty tx_inputValues name) (defaultValue ty))
               (inputs f)))"

text \<open>\<^verbatim>\<open>tx.value || '0'\<close> and \<^verbatim>\<open>tx.data || '0x'\<close>.\<close>

definition orZero :: "nat option \<Rightarrow> nat" where
  "orZero v = (case v of None \<Rightarrow> 0 | Some n \<Rightarrow> if n \<noteq> 0 then n else 0)"

definition orEmptyHex :: "string option \<Rightarrow> string" where
  "orEmptyHex d = (case d of None \<Rightarrow> ''0x'' | Some s \<Rightarrow> if s \<noteq> [] then s else ''0x'')"

fun encodeSingle :: "AbiLib \<Rightarrow> TransactionInput \<Rightarrow> error + MetaTransaction" where
  "encodeSingle L (TransferFunds tx_to tx_amount tx_token) =
     (case tx_token of
        None \<Rightarrow> Inr \<lparr>to = tx_to, value = tx_amount, data = ''0x''\<rparr>
      | Some token \<Rightarrow>
          bind_err (encodeErc20Transfer L tx_to tx_amount)
            (\<lambda>d. Inr \<lparr>to = token, value = 0, data = d\<rparr>))"
| "encodeSingle L (TransferCollectible tx_from tx_to tx_tokenId tx_address) =
     bind_err (encodeErc721Transfer L tx_from tx_to tx_tokenId)
       (\<lambda>d. Inr \<lparr>to = tx_address, value = 0, data = d\<rparr>)"
| "encodeSingle L (CallContract tx_to tx_value tx_abi tx_functionSignature tx_inputValues) =
     bind_err (encodeFunctionCall L tx_abi tx_functionSignature tx_inputValues)
       (\<lambda>d. Inr \<lparr>to = tx_to, value = orZero tx_value, data = d\<rparr>)"
| "encodeSingle L (Raw tx_to tx_value tx_data) =
     Inr \<lparr>to = tx_to, value = orZero tx_value, data = orEmptyHex tx_data\<rparr>"

subsection \<open>The batch layer\<close>

text \<open>
  Modelled from the spec: the declarations of \<^verbatim>\<open>types.ts\<close> that the batch module
  imports, which are not under \<^verbatim>\<open>src/\<close>. \<^verbatim>\<open>Operation\<close> has \<open>CALL = 0\<close> and
  \<open>DELEGATE_CALL = 1\<close> (the comment of \<^verbatim>\<open>encodePacked\<close> says so too).
  \<open>ModuleTransactionInput\<close> holds the four properties that the batch module reads of an
  entry: \<open>to\<close>, and \<open>operation\<close>, \<open>value\<close> and \<open>data\<close>, each of which may be absent.
  \<^verbatim>\<open>ModuleTransaction\<close> is a \<open>MetaTransaction\<close> with an operation.
\<close>

datatype Operation = CALL | DELEGATE_CALL

fun operationCode :: "Operation \<Rightarrow> nat" where
  "operationCode CALL = 0"
| "operationCode DELEGATE_CALL = 1"

record ModuleTransactionInput =
  tx_operation :: "Operation option"
  tx_to :: string
  tx_value :: "nat option"
  tx_data :: "string option"

record ModuleTransaction = MetaTransaction +
  operation :: Operation

definition MULTI_SEND_ABI :: Interface where
  "MULTI_SEND_ABI = [\<lparr>signature = ''multiSend(bytes)'', inputs = [(''transactions'', TBytes)]\<rparr>]"

definition MULTI_SEND_CONTRACT_ADDRESS :: string where
  "MULTI_SEND_CONTRACT_ADDRESS = ''0x8D29bE29923b68abfDD21e541b9374737B49cdAD''"

text \<open>
  Modelled from the spec: an entry of a batch may be any intent of the data model (both
  modules import \<^verbatim>\<open>TransactionInput\<close> from \<^verbatim>\<open>types.ts\<close>). The batch module reads
  four properties of an entry, whatever its kind. \<open>entryOf op x\<close> is what it finds on
  the intent \<open>x\<close> that carries the optional property \<open>operation = op\<close>: every intent has
  \<open>to\<close>; \<open>value\<close> is a property of a contract call and of a raw call, \<open>data\<close> of a
  raw call only (a transfer of funds has an \<open>amount\<close> and a \<open>token\<close>, a collectible a
  \<open>tokenId\<close> and an \<open>address\<close>). \<open>entriesOf\<close> is a list of such entries.
\<close>

fun entryOf :: "Operation option \<Rightarrow> TransactionInput \<Rightarrow> ModuleTransactionInput" where
  "entryOf op (TransferFunds tx_to' tx_amount tx_token) =
     \<lparr>tx_operation = op, tx_to = tx_to', tx_value = None, tx_data = None\<rparr>"
| "entryOf op (TransferCollectible tx_from tx_to' tx_tokenId tx_address) =
     \<lparr>tx_operation = op, tx_to = tx_to', tx_value = None, tx_data = None\<rparr>"
| "entryOf op (CallContract tx_to' tx_value' tx_abi tx_functionSignature tx_inputValues) =
     \<lparr>tx_operation = op, tx_to = tx_to', tx_value = tx_value', tx_data = None\<rparr>"
| "entryOf op (Raw tx_to' tx_value' tx_data') =
     \<lparr>tx_operation = op, tx_to = tx_to', tx_value = tx_value', tx_data = tx_data'\<rparr>"

definition entriesOf ::
  "(Operation option \<times> TransactionInput) list \<Rightarrow> ModuleTransactionInput list" where
  "entriesOf xs = map (\<lambda>(op, x). entryOf op x) xs"

text \<open>\<^verbatim>\<open>tx.operation || Operation.CALL\<close>: \<open>CALL\<close> is 0, which is falsy.\<close>

definition orCall :: "Operation option \<Rightarrow> Operation" where
  "orCall op = (case op of None \<Rightarrow> CALL | Some x \<Rightarrow> if operationCode x \<noteq> 0 then x else CALL)"

definition coerceTransactionInput :: "ModuleTransactionInput \<Rightarrow> ModuleTransaction" where
  "coerceTransactionInput tx =
     \<lparr>to = tx_to tx,
      value = orZero (tx_value tx),
      data = orEmptyHex (tx_data tx),
      operation = orCall (tx_operation tx)\<rparr>"

text \<open>
  \<^verbatim>\<open>pack\<close> of @ethersproject/solidity on the types used here: an address and bytes
  are the bytes of their hex string (the length of an address is not checked), a
  \<^verbatim>\<open>uint<N>\<close> is the number on \<open>N / 8\<close> bytes; \<^verbatim>\<open>null\<close> (what \<^verbatim>\<open>hexDataLength\<close>
  gives for a string that is not hex data) is no number.
\<close>

datatype sol_type = SolUint nat | SolAddress | SolBytes

datatype pack_arg = PNum nat | PStr string | PNull

fun packOne :: "sol_type \<Rightarrow> pack_arg \<Rightarrow> error + byte list" where
  "packOne SolAddress (PStr s) = arrayify s"
| "packOne SolBytes (PStr s) = arrayify s"
| "packOne (SolUint n) (PNum v) =
     (if n mod 8 \<noteq> 0 \<or> n = 0 \<or> 256 < n then Inl InvalidValue else zeroPad v (n div 8))"
| "packOne _ _ = Inl InvalidValue"

definition pack :: "sol_type list \<Rightarrow> pack_arg list \<Rightarrow> error + string" where
  "pack types vals =
     (if length types \<noteq> length vals then Inl LengthMismatch
      else bind_err (collect (map (\<lambda>(t, v). packOne t v) (zip types vals)))
             (\<lambda>tight. Inr (hexlify (concat tight))))"

definition encodePacked :: "ModuleTransactionInput \<Rightarrow> error + string" where
  "encodePacked transactionInput =
     (let tx = coerceTransactionInput transactionInput
      in pack [SolUint 8, SolAddress, SolUint 256, SolUint 256, SolBytes]
           [PNum (operationCode (orCall (Some (operation tx)))),
            PStr (to tx),
            PNum (orZero (Some (value tx))),
            (case hexDataLength (data tx) of None \<Rightarrow> PNull | Some n \<Rightarrow> PNum n),
            PStr (data tx)])"

definition remove0x :: "string \<Rightarrow> string" where
  "remove0x hexString = drop 2 hexString"

text \<open>
  \<^verbatim>\<open>encodeMultiSend\<close>; the second argument is \<open>None\<close> when the caller leaves it out
  (the default parameter then applies).
\<close>

definition encodeMultiSend ::
  "AbiLib \<Rightarrow> ModuleTransactionInput list \<Rightarrow> string option \<Rightarrow> error + ModuleTransaction" where
  "encodeMultiSend L transactions addressArg =
     (let multiSendContractAddress =
            (case addressArg of None \<Rightarrow> MULTI_SEND_CONTRACT_ADDRESS | Some a \<Rightarrow> a)
      in bind_err (collect (map encodePacked transactions))
           (\<lambda>packed.
              let transactionsEncoded = ''0x'' @ concat (map remove0x packed)
              in bind_err (encodeFunctionData L MULTI_SEND_ABI ''multiSend'' [VStr transactionsEncoded])
                   (\<lambda>d. Inr \<lparr>to = (if multiSendContractAddress \<noteq> [] then multiSendContractAddress
                                    else MULTI_SEND_CONTRACT_ADDRESS),
                              value = 0,
                              data = d,
                              operation = DELEGATE_CALL\<rparr>)))"

text \<open>
  The class \<^verbatim>\<open>MultiSender\<close>: its constructor, and \<^verbatim>\<open>multiSend\<close> up to the call of
  the avatar's \<^verbatim>\<open>execTransactionFromModule\<close>, which is outside this development:
  \<open>multiSend\<close> gives the module transaction whose four fields are passed to it (the
  caller's overrides go along unchanged).
\<close>

record MultiSender =
  avatarAddress :: string
  multiSendContractAddress :: string

definition newMultiSender :: "string \<Rightarrow> string option \<Rightarrow> MultiSender" where
  "newMultiSender avatar addressArg =
     \<lparr>avatarAddress = avatar,
      multiSendContractAddress =
        (case addressArg of None \<Rightarrow> MULTI_SEND_CONTRACT_ADDRESS | Some a \<Rightarrow> a)\<rparr>"

definition multiSend ::
  "AbiLib \<Rightarrow> MultiSender \<Rightarrow> ModuleTransactionInput list \<Rightarrow> error + ModuleTransaction" where
  "multiSend L this transactions =
     (if length transactions = 1 then Inr (coerceTransactionInput (transactions ! 0))
      else encodeMultiSend L transactions (Some (multiSendContractAddress this)))"

subsection \<open>Reading encodings back\<close>

text \<open>
  The readers below are not in the source: they are the receiving side that the
  specification describes (the relay contract walking the packed records, an ABI decoder
  for \<^verbatim>\<open>transfer(address,uint256)\<close> and for \<^verbatim>\<open>multiSend(bytes)\<close>). The theorems
  use them to say what an encoding carries.
\<close>

text \<open>The packed layout of one record, as the specification's table gives it.\<close>

definition packedRecord :: "Operation \<Rightarrow> byte list \<Rightarrow> nat \<Rightarrow> byte list \<Rightarrow> byte list" where
  "packedRecord op addr v d =
     [of_nat (operationCode op)] @ addr @ be_bytes 32 v @ be_bytes 32 (length d) @ d"

record PackedRecord =
  rec_operation :: Operation
  rec_to :: "byte list"
  rec_value :: nat
  rec_data :: "byte list"

definition decodeOperation :: "byte \<Rightarrow> Operation option" where
  "decodeOperation b = (if b = 0 then Some CALL else if b = 1 then Some DELEGATE_CALL else None)"

text \<open>
  Walking a blob record by record: one byte of operation, 20 of address, 32 of value, 32
  of length, then as many bytes of data as the length says.
\<close>

function unpackRecords :: "byte list \<Rightarrow> PackedRecord list option" where
  "unpackRecords bs =
     (if bs = [] then Some []
      else if length bs < 85 then None
      else
        let n = from_be (take 32 (drop 53 bs)) in
        if length bs < 85 + n then None
        else
          (case decodeOperation (hd bs) of
             None \<Rightarrow> None
           | Some op \<Rightarrow>
               (case unpackRecords (drop (85 + n) bs) of
                  None \<Rightarrow> None
                | Some rs \<Rightarrow>
                    Some (\<lparr>rec_operation = op,
                           rec_to = take 20 (drop 1 bs),
                           rec_value = from_be (take 32 (drop 21 bs)),
                           rec_data = take n (drop 85 bs)\<rparr> # rs))))"
  by pat_completeness auto
termination
  by (relation "measure length") auto

text \<open>The bytes a hex string stands for (empty for a string that is none).\<close>

definition bytesOf :: "string \<Rightarrow> byte list" where
  "bytesOf s = (case arrayify s of Inl e \<Rightarrow> [] | Inr bs \<Rightarrow> bs)"

text \<open>The fields of a module transaction as a packed record holds them.\<close>

definition recordOf :: "ModuleTransaction \<Rightarrow> PackedRecord" where
  "recordOf m =
     \<lparr>rec_operation = operation m,
      rec_to = bytesOf (to m),
      rec_value = value m,
      rec_data = bytesOf (data m)\<rparr>"

text \<open>
  A batch entry that can be packed: \<open>to\<close> and \<open>data\<close> (if given) are hex strings of
  whole bytes, \<open>value\<close> and the length of the data fit 256 bits. An entry whose \<open>to\<close>
  is an address has 20 bytes there.
\<close>

definition packable :: "ModuleTransactionInput \<Rightarrow> bool" where
  "packable tx =
     (case (arrayify (tx_to tx), arrayify (orEmptyHex (tx_data tx))) of
        (Inr a, Inr d) \<Rightarrow> orZero (tx_value tx) < 2 ^ 256 \<and> length d < 2 ^ 256
      | _ \<Rightarrow> False)"

definition toIsAddress :: "ModuleTransactionInput \<Rightarrow> bool" where
  "toIsAddress tx = (length (bytesOf (tx_to tx)) = 20)"

text \<open>The relay address of a call of \<open>encodeMultiSend\<close> with the given second argument.\<close>

definition relayAddress :: "string option \<Rightarrow> string" where
  "relayAddress addressArg =
     (case addressArg of
        None \<Rightarrow> MULTI_SEND_CONTRACT_ADDRESS
      | Some a \<Rightarrow> if a = [] then MULTI_SEND_CONTRACT_ADDRESS else a)"

text \<open>The blob of a list of entries: their records in order.\<close>

definition blobOf :: "ModuleTransactionInput list \<Rightarrow> byte list" where
  "blobOf txs =
     concat (map (\<lambda>tx. packedRecord (orCall (tx_operation tx)) (bytesOf (tx_to tx))
                          (orZero (tx_value tx)) (bytesOf (orEmptyHex (tx_data tx)))) txs)"

text \<open>Decoding the arguments of a call with one \<^verbatim>\<open>bytes\<close> parameter.\<close>

definition abiDecodeBytes :: "byte list \<Rightarrow> byte list option" where
  "abiDecodeBytes args =
     (if length args < 32 then None
      else
        let off = from_be (take 32 args) in
        if length args < off + 32 then None
        else
          let n = from_be (take 32 (drop off args)) in
          if length args < off + 32 + n then None
          else Some (take n (drop (off + 32) args)))"

definition decodeMultiSend :: "AbiLib \<Rightarrow> string \<Rightarrow> byte list option" where
  "decodeMultiSend L d =
     (case arrayify d of
        Inl e \<Rightarrow> None
      | Inr bs \<Rightarrow>
          if take 4 bs = sighashBytes L ''multiSend(bytes)'' then abiDecodeBytes (drop 4 bs)
          else None)"

text \<open>Decoding a call of \<^verbatim>\<open>transfer(address,uint256)\<close>: the recipient and the amount.\<close>

definition decodeTransfer :: "AbiLib \<Rightarrow> string \<Rightarrow> (160 word \<times> nat) option" where
  "decodeTransfer L d =
     (case arrayify d of
        Inl e \<Rightarrow> None
      | Inr bs \<Rightarrow>
          if take 4 bs \<noteq> sighashBytes L ''transfer(address,uint256)'' \<or> length bs < 68 then None
          else
            let recipient = from_be (take 32 (drop 4 bs));
                amount = from_be (take 32 (drop 36 bs))
            in if recipient < 2 ^ 160 then Some (of_nat recipient, amount) else None)"

text \<open>
  A packed record carries an operation and a normalized call: its four fields are the
  operation, and the bytes of \<open>to\<close>, the value and the bytes of \<open>data\<close> of the call.
\<close>

definition carries :: "PackedRecord \<Rightarrow> Operation \<Rightarrow> MetaTransaction \<Rightarrow> bool" where
  "carries r op m =
     (r = \<lparr>rec_operation = op, rec_to = bytesOf (to m), rec_value = value m,
           rec_data = bytesOf (data m)\<rparr>)"

text \<open>
  The intents whose normalized call is made of their own \<open>to\<close>, \<open>value\<close> and
  \<open>data\<close> properties: a raw call, and a transfer of no funds in the native currency.
\<close>

fun rawLike :: "TransactionInput \<Rightarrow> bool" where
  "rawLike (Raw tx_to' tx_value' tx_data') = True"
| "rawLike (TransferFunds tx_to' tx_amount tx_token) = (tx_token = None \<and> tx_amount = 0)"
| "rawLike (TransferCollectible tx_from tx_to' tx_tokenId tx_address) = False"
| "rawLike (CallContract tx_to' tx_value' tx_abi tx_functionSignature tx_inputValues) = False"

text \<open>
  A supplied input value has the JavaScript form that the coder of its parameter takes: a
  number for an integer, a boolean for \<^verbatim>\<open>bool\<close>, a string for \<^verbatim>\<open>string\<close>, a hex
  string for bytes, a non-empty string for an address, an array for an array or a tuple.
\<close>

fun conforms :: "abi_type \<Rightarrow> js_value \<Rightarrow> bool" where
  "conforms (TUInt n) (VNum i) = True"
| "conforms (TInt n) (VNum i) = True"
| "conforms TAddress (VStr s) = (s \<noteq> [])"
| "conforms TBool (VBool b) = True"
| "conforms TBytes (VStr s) = isHexString s"
| "conforms TString (VStr s) = True"
| "conforms (TFixedBytes k) (VStr s) = isHexString s"
| "conforms (TArray t) (VList vs) = True"
| "conforms (TFixedArray t k) (VList vs) = True"
| "conforms (TTuple ts) (VList vs) = True"
| "conforms _ _ = False"

text \<open>The parameter types whose encoding is one 32-byte word, in place.\<close>

fun wordType :: "abi_type \<Rightarrow> bool" where
  "wordType (TUInt n) = True"
| "wordType (TInt n) = True"
| "wordType TAddress = True"
| "wordType TBool = True"
| "wordType (TFixedBytes k) = (1 \<le> k \<and> k \<le> 32)"
| "wordType _ = False"

text \<open>The values that \<open>encodeFunctionCall\<close> passes on when every supplied one is kept.\<close>

definition suppliedOrDefault ::
  "(string \<Rightarrow> js_value option) \<Rightarrow> (string \<times> abi_type) list \<Rightarrow> js_value list" where
  "suppliedOrDefault inputValues ins =
     map (\<lambda>(name, ty). case inputValues name of None \<Rightarrow> defaultValue ty | Some v \<Rightarrow> v) ins"

subsection \<open>Example inputs\<close>

text \<open>
  An instance of the library parameters for evaluation (addresses in hex form, the
  selectors of the four signatures used) and the two calls of the example in the
  specification: a call with value 1 and no data, and a delegate-call with data
  \<^verbatim>\<open>0x1234\<close>.
\<close>

definition exampleLib :: AbiLib where
  "exampleLib =
     \<lparr>getAddress =
        (\<lambda>s. case arrayify s of
                Inl e \<Rightarrow> None
              | Inr bs \<Rightarrow> if length bs = 20 then Some (of_nat (from_be bs)) else None),
      getSighash =
        (\<lambda>sig. if sig = ''transfer(address,uint256)'' then 0xa9059cbb
                else if sig = ''safeTransferFrom(address,address,uint256)'' then 0x42842e0e
                else if sig = ''multiSend(bytes)'' then 0x8d80ff0a
                else if sig = ''p(bool)'' then 0x70568216
                else 0)\<rparr>"

definition txA :: ModuleTransactionInput where
  "txA = \<lparr>tx_operation = None, tx_to = ''0xaa00000000000000000000000000000000000001'',
          tx_value = Some 1, tx_data = None\<rparr>"

definition txB :: ModuleTransactionInput where
  "txB = \<lparr>tx_operation = Some DELEGATE_CALL, tx_to = ''0xAA00000000000000000000000000000000000002'',
          tx_value = None, tx_data = Some ''0x1234''\<rparr>"

text \<open>
  A transfer of 258 units of the token at \<^verbatim>\<open>0x00...c0\<close> to \<^verbatim>\<open>0xaa...01\<close>, and a
  raw delegate-call, the intent that \<open>txB\<close> is the entry of.
\<close>

definition txT :: TransactionInput where
  "txT = TransferFunds ''0xaa00000000000000000000000000000000000001'' 258
           (Some ''0x00000000000000000000000000000000000000c0'')"

definition txR :: TransactionInput where
  "txR = Raw ''0xAA00000000000000000000000000000000000002'' None (Some ''0x1234'')"

text \<open>
  The interface of the human-readable ABI \<^verbatim>\<open>['function p(bool valueOf)']\<close>, whose one
  parameter has the name of a member of \<^verbatim>\<open>Object.prototype\<close>, and an
  \<^verbatim>\<open>inputValues\<close> object with no property of its own, \<^verbatim>\<open>{}\<close>.
\<close>

definition valueOfInterface :: Interface where
  "valueOfInterface = [\<lparr>signature = ''p(bool)'', inputs = [(''valueOf'', TBool)]\<rparr>]"

definition noInputValues :: "string \<Rightarrow> js_value option" where
  "noInputValues name = None"

text \<open>Input values for \<^verbatim>\<open>transfer(address,uint256)\<close> that leave the recipient out.\<close>

definition amountOnly :: "string \<Rightarrow> js_value option" where
  "amountOnly name = (if name = ''amount'' then Some (VNum 7) else None)"

section \<open>Auxiliary lemmas\<close>

declare unpackRecords.simps [simp del]

declare natBytes.simps [simp del]

lemma hexVal_hexChar_all: "\<forall>n \<in> set [0..<16]. hexVal (hexChar n) = Some n"
  by code_simp

lemma hexVal_hexChar: "n < 16 \<Longrightarrow> hexVal (hexChar n) = Some n"
  using hexVal_hexChar_all by simp

lemma unat_byte_div16: "unat (b :: byte) div 16 < 16"
proof -
  have "unat b < 256" using unsigned_less [of b, where ?'a = nat] by simp
  then show ?thesis by simp
qed

lemma hexPairs_hexByte: "hexPairs (hexByte b @ cs) = map_option (Cons b) (hexPairs cs)"
  by (cases "hexPairs cs") (simp_all add: hexByte_def hexVal_hexChar unat_byte_div16)

lemma hexPairs_concat: "hexPairs (concat (map hexByte bs)) = Some bs"
  by (induction bs) (simp_all add: hexPairs_hexByte)

lemma arrayify_hexlify: "arrayify (hexlify bs) = Inr bs"
  by (simp add: arrayify_def hexlify_def hexPairs_concat)

lemma hexPairs_Some:
  "hexPairs cs = Some bs \<Longrightarrow> length cs = 2 * length bs \<and> list_all (\<lambda>c. hexVal c \<noteq> None) cs"
  by (induction cs arbitrary: bs rule: hexPairs.induct) (auto split: option.splits)

lemma arrayify_Inr:
  assumes "arrayify s = Inr bs"
  shows "take 2 s = ''0x''" and "hexPairs (drop 2 s) = Some bs" and "length s = 2 + 2 * length bs"
    and "isHexString s"
proof -
  show t: "take 2 s = ''0x''" using assms by (auto simp: arrayify_def split: if_splits)
  show h: "hexPairs (drop 2 s) = Some bs"
    using assms by (auto simp: arrayify_def split: if_splits option.splits)
  have "length (take 2 s) = 2" using t by simp
  then have "2 \<le> length s" by simp
  moreover have "length (drop 2 s) = 2 * length bs" using hexPairs_Some [OF h] by simp
  ultimately show "length s = 2 + 2 * length bs" by simp
  show "isHexString s" using t hexPairs_Some [OF h] by (simp add: isHexString_def)
qed

lemma hexDataLength_arrayify: "arrayify s = Inr bs \<Longrightarrow> hexDataLength s = Some (length bs)"
  using arrayify_Inr [of s bs] by (simp add: hexDataLength_def)

lemma length_be_bytes [simp]: "length (be_bytes w n) = w"
  by (induction w arbitrary: n) simp_all

lemma from_be_snoc: "from_be (bs @ [b]) = 256 * from_be bs + unat b"
  by (simp add: from_be_def)

lemma from_be_be_bytes: "from_be (be_bytes w n) = n mod 256 ^ w"
proof (induction w arbitrary: n)
  case 0
  then show ?case by (simp add: from_be_def)
next
  case (Suc w)
  have "unat (of_nat (n mod 256) :: byte) = n mod 256"
    by (simp add: unat_of_nat)
  then have "from_be (be_bytes (Suc w) n) = 256 * ((n div 256) mod 256 ^ w) + n mod 256"
    by (simp add: from_be_snoc Suc.IH)
  also have "\<dots> = n mod 256 ^ Suc w"
    by (simp add: mod_mult2_eq)
  finally show ?case .
qed

lemma remove0x_hexlify: "''0x'' @ concat (map remove0x (map hexlify rs)) = hexlify (concat rs)"
  by (induction rs) (simp_all add: remove0x_def hexlify_def)


lemma orCall_Some_orCall [simp]: "orCall (Some (orCall op)) = orCall op"
  by (cases op) (auto simp: orCall_def)

lemma orZero_Some_orZero [simp]: "orZero (Some (orZero v)) = orZero v"
  by (cases v) (auto simp: orZero_def)

lemma operationCode_le: "operationCode op < 256"
  by (cases op) simp_all

lemma packable_D:
  assumes "packable tx"
  shows "arrayify (tx_to tx) = Inr (bytesOf (tx_to tx))"
    and "arrayify (orEmptyHex (tx_data tx)) = Inr (bytesOf (orEmptyHex (tx_data tx)))"
    and "orZero (tx_value tx) < 2 ^ 256"
    and "length (bytesOf (orEmptyHex (tx_data tx))) < 2 ^ 256"
  using assms by (auto simp: packable_def bytesOf_def split: sum.splits)

lemma encodePacked_packable:
  assumes "packable tx"
  shows "encodePacked tx =
    Inr (hexlify (packedRecord (orCall (tx_operation tx)) (bytesOf (tx_to tx))
           (orZero (tx_value tx)) (bytesOf (orEmptyHex (tx_data tx)))))"
proof -
  note p = packable_D [OF assms]
  have l: "hexDataLength (orEmptyHex (tx_data tx)) = Some (length (bytesOf (orEmptyHex (tx_data tx))))"
    by (rule hexDataLength_arrayify [OF p(2)])
  have v: "orZero (tx_value tx) < 256 ^ 32" using p(3) by simp
  have d: "length (bytesOf (orEmptyHex (tx_data tx))) < 256 ^ 32" using p(4) by simp
  have b1: "be_bytes (Suc 0) n = [of_nat (n mod 256)]" for n by simp
  show ?thesis
    using v d operationCode_le [of "orCall (tx_operation tx)"]
    by (simp add: encodePacked_def coerceTransactionInput_def pack_def l p(1,2)
        bind_err_def zeroPad_def packedRecord_def b1)
qed


lemma getFunction_multiSend:
  "getFunction L MULTI_SEND_ABI ''multiSend'' = Inr (hd MULTI_SEND_ABI)"
  by (simp add: getFunction_def MULTI_SEND_ABI_def isHexString_def functionsOf_def)

lemma packWriter_single_dynamic: "packWriter [(True, e)] = word32 32 @ e"
  by (simp add: packWriter_def headLength_def)

lemma encodeFunctionData_multiSend:
  "encodeFunctionData L MULTI_SEND_ABI ''multiSend'' [VStr (hexlify blob)] =
     Inr (hexlify (sighashBytes L ''multiSend(bytes)'' @ word32 32 @ word32 (length blob) @ padRight blob))"
  by (simp add: encodeFunctionData_def getFunction_multiSend bind_err_def arrayify_hexlify
      packWriter_single_dynamic) (simp add: MULTI_SEND_ABI_def bind_err_def arrayify_hexlify
      packWriter_single_dynamic)

lemma collect_encodePacked:
  assumes "\<forall>tx \<in> set txs. packable tx"
  shows "collect (map encodePacked txs) =
     Inr (map hexlify (map (\<lambda>tx. packedRecord (orCall (tx_operation tx)) (bytesOf (tx_to tx))
                          (orZero (tx_value tx)) (bytesOf (orEmptyHex (tx_data tx)))) txs))"
  using assms by (induction txs) (simp_all add: encodePacked_packable)

lemma MULTI_SEND_CONTRACT_ADDRESS_nonempty: "MULTI_SEND_CONTRACT_ADDRESS \<noteq> []"
  by (simp add: MULTI_SEND_CONTRACT_ADDRESS_def)

lemma encodeMultiSend_packable:
  assumes "\<forall>tx \<in> set txs. packable tx"
  shows "encodeMultiSend L txs addressArg =
     Inr \<lparr>to = relayAddress addressArg, value = 0,
          data = hexlify (sighashBytes L ''multiSend(bytes)'' @ word32 32 @
                   word32 (length (blobOf txs)) @ padRight (blobOf txs)),
          operation = DELEGATE_CALL\<rparr>"
proof -
  let ?recs = "map (\<lambda>tx. packedRecord (orCall (tx_operation tx)) (bytesOf (tx_to tx))
                          (orZero (tx_value tx)) (bytesOf (orEmptyHex (tx_data tx)))) txs"
  have c: "collect (map encodePacked txs) = Inr (map hexlify ?recs)"
    by (rule collect_encodePacked [OF assms])
  have e: "''0x'' @ concat (map remove0x (map hexlify ?recs)) = hexlify (blobOf txs)"
    unfolding blobOf_def by (rule remove0x_hexlify)
  have r: "(if (case addressArg of None \<Rightarrow> MULTI_SEND_CONTRACT_ADDRESS | Some a \<Rightarrow> a) \<noteq> []
            then (case addressArg of None \<Rightarrow> MULTI_SEND_CONTRACT_ADDRESS | Some a \<Rightarrow> a)
            else MULTI_SEND_CONTRACT_ADDRESS) = relayAddress addressArg"
    by (cases addressArg) (simp_all add: relayAddress_def MULTI_SEND_CONTRACT_ADDRESS_nonempty)
  show ?thesis
    unfolding encodeMultiSend_def Let_def c bind_err_def sum.case e encodeFunctionData_multiSend r
    by (rule refl)
qed


lemma length_word32 [simp]: "length (word32 n) = 32"
  by (simp add: word32_def)

lemma from_be_word32: "n < 2 ^ 256 \<Longrightarrow> from_be (word32 n) = n"
  by (simp add: word32_def from_be_be_bytes)

lemma length_sighashBytes [simp]: "length (sighashBytes L sig) = 4"
  by (simp add: sighashBytes_def)

lemma abiDecodeBytes_encoded:
  assumes "length b < 2 ^ 256"
  shows "abiDecodeBytes (word32 32 @ word32 (length b) @ padRight b) = Some b"
proof -
  have o: "from_be (word32 32) = 32" by (rule from_be_word32) simp
  have n: "from_be (word32 (length b)) = length b" by (rule from_be_word32 [OF assms])
  show ?thesis
    by (simp add: abiDecodeBytes_def o n Let_def padRight_def)
qed

lemma decodeMultiSend_encoded:
  assumes "length b < 2 ^ 256"
  shows "decodeMultiSend L (hexlify (sighashBytes L ''multiSend(bytes)'' @ word32 32 @
           word32 (length b) @ padRight b)) = Some b"
  by (simp add: decodeMultiSend_def arrayify_hexlify abiDecodeBytes_encoded [OF assms])

lemma decodeOperation_code: "decodeOperation (of_nat (operationCode op)) = Some op"
  by (cases op) (simp_all add: decodeOperation_def)

lemma unpackRecords_Nil: "unpackRecords [] = Some []"
  by (simp add: unpackRecords.simps)

lemma unpackRecords_step:
  assumes "bs \<noteq> []" and "85 + n \<le> length bs" and "from_be (take 32 (drop 53 bs)) = n"
    and "decodeOperation (hd bs) = Some op"
  shows "unpackRecords bs =
     map_option (Cons \<lparr>rec_operation = op, rec_to = take 20 (drop 1 bs),
                       rec_value = from_be (take 32 (drop 21 bs)),
                       rec_data = take n (drop 85 bs)\<rparr>)
       (unpackRecords (drop (85 + n) bs))"
  using assms by (subst unpackRecords.simps) (simp add: Let_def split: option.splits)

lemma unpackRecords_record:
  assumes "length a = 20" and "v < 2 ^ 256" and "length d < 2 ^ 256"
  shows "unpackRecords (packedRecord op a v d @ rest) =
     map_option (Cons \<lparr>rec_operation = op, rec_to = a, rec_value = v, rec_data = d\<rparr>)
       (unpackRecords rest)"
proof -
  define bs where "bs = packedRecord op a v d @ rest"
  have bs: "bs = of_nat (operationCode op) # a @ be_bytes 32 v @ be_bytes 32 (length d) @ d @ rest"
    by (simp add: bs_def packedRecord_def)
  have v: "from_be (be_bytes 32 v) = v" using assms(2) by (simp add: from_be_be_bytes)
  have n: "from_be (be_bytes 32 (length d)) = length d" using assms(3) by (simp add: from_be_be_bytes)
  have 1: "take 20 (drop 1 bs) = a" using assms(1) by (simp add: bs)
  have 2: "take 32 (drop 21 bs) = be_bytes 32 v" using assms(1) by (simp add: bs)
  have 3: "take 32 (drop 53 bs) = be_bytes 32 (length d)" using assms(1) by (simp add: bs)
  have 4: "drop 85 bs = d @ rest" using assms(1) by (simp add: bs)
  have "drop (85 + length d) bs = drop (length d) (drop 85 bs)"
    by (simp only: drop_drop add.commute)
  then have 5: "drop (85 + length d) bs = rest" by (simp add: 4)
  have 6: "85 + length d \<le> length bs" using assms(1) by (simp add: bs)
  have 7: "decodeOperation (hd bs) = Some op" by (simp add: bs decodeOperation_code)
  have 8: "bs \<noteq> []" by (simp add: bs)
  have 9: "from_be (take 32 (drop 53 bs)) = length d" by (simp only: 3 n)
  have "unpackRecords bs =
     map_option (Cons \<lparr>rec_operation = op, rec_to = a, rec_value = v, rec_data = d\<rparr>)
       (unpackRecords rest)"
    by (simp only: unpackRecords_step [OF 8 6 9 7] 1 2 4 5 v) simp
  then show ?thesis by (simp only: bs_def)
qed

lemma unpackRecords_blobOf:
  assumes "\<forall>tx \<in> set txs. packable tx \<and> toIsAddress tx"
  shows "unpackRecords (blobOf txs) = Some (map (\<lambda>tx. recordOf (coerceTransactionInput tx)) txs)"
  using assms
proof (induction txs)
  case Nil
  then show ?case by (simp add: blobOf_def unpackRecords_Nil)
next
  case (Cons tx txs)
  then have p: "packable tx" and t: "length (bytesOf (tx_to tx)) = 20" and ih: "unpackRecords (blobOf txs) =
      Some (map (\<lambda>tx. recordOf (coerceTransactionInput tx)) txs)"
    by (simp_all add: toIsAddress_def)
  note d = packable_D [OF p]
  have b: "blobOf (tx # txs) =
      packedRecord (orCall (tx_operation tx)) (bytesOf (tx_to tx))
        (orZero (tx_value tx)) (bytesOf (orEmptyHex (tx_data tx))) @ blobOf txs"
    by (simp add: blobOf_def)
  show ?case
    unfolding b
    by (simp add: unpackRecords_record [OF t d(3) d(4)] ih recordOf_def coerceTransactionInput_def)
qed


lemma bind_err_Inr_iff: "bind_err m f = Inr y \<longleftrightarrow> (\<exists>x. m = Inr x \<and> f x = Inr y)"
  by (cases m) (simp_all add: bind_err_def)

lemma collect_Cons_Inr:
  "collect (m # ms) = Inr ys \<longleftrightarrow> (\<exists>x xs. m = Inr x \<and> collect ms = Inr xs \<and> ys = x # xs)"
  by (auto split: sum.splits)

lemma encodePacked_Inr_packable:
  assumes "encodePacked tx = Inr s"
  shows "packable tx"
proof -
  let ?d = "orEmptyHex (tx_data tx)"
  from assms obtain a v n d where a: "arrayify (tx_to tx) = Inr a"
    and v: "zeroPad (orZero (tx_value tx)) 32 = Inr v"
    and n: "packOne (SolUint 256) (case hexDataLength ?d of None \<Rightarrow> PNull | Some n \<Rightarrow> PNum n) = Inr n"
    and d: "arrayify ?d = Inr d"
    by (auto simp add: encodePacked_def coerceTransactionInput_def pack_def bind_err_Inr_iff
        Let_def collect_Cons_Inr simp del: collect.simps(2))
  have l: "hexDataLength ?d = Some (length d)" by (rule hexDataLength_arrayify [OF d])
  have "orZero (tx_value tx) < 2 ^ 256" using v by (auto simp: zeroPad_def split: if_splits)
  moreover have "length d < 2 ^ 256" using n by (auto simp: l zeroPad_def split: if_splits)
  ultimately show ?thesis by (simp add: packable_def a d)
qed

lemma collect_encodePacked_packable:
  "collect (map encodePacked txs) = Inr ps \<Longrightarrow> \<forall>tx \<in> set txs. packable tx"
proof (induction txs arbitrary: ps)
  case Nil
  then show ?case by simp
next
  case (Cons tx txs)
  from Cons.prems obtain s ss where "encodePacked tx = Inr s" and "collect (map encodePacked txs) = Inr ss"
    by (auto simp add: collect_Cons_Inr simp del: collect.simps(2))
  then show ?case using Cons.IH encodePacked_Inr_packable by auto
qed

lemma encodeMultiSend_Inr_packable:
  assumes "encodeMultiSend L txs addressArg = Inr r"
  shows "\<forall>tx \<in> set txs. packable tx"
proof -
  from assms obtain ps where "collect (map encodePacked txs) = Inr ps"
    by (auto simp: encodeMultiSend_def Let_def bind_err_Inr_iff)
  then show ?thesis by (rule collect_encodePacked_packable)
qed

lemma be_bytes_numeral:
  "be_bytes (numeral k) n = be_bytes (pred_numeral k) (n div 256) @ [of_nat (n mod 256)]"
proof -
  have "be_bytes (numeral k) n = be_bytes (Suc (pred_numeral k)) n"
    by (simp only: numeral_eq_Suc [of k])
  then show ?thesis by (simp only: be_bytes.simps)
qed

lemma replicate_numeral: "replicate (numeral k) x = x # replicate (pred_numeral k) x"
proof -
  have "replicate (numeral k) x = replicate (Suc (pred_numeral k)) x"
    by (simp only: numeral_eq_Suc [of k])
  then show ?thesis by (simp only: replicate_Suc)
qed

lemmas hex_eval = arrayify_def hexVal_def hexlify_def hexByte_def hexChar_def be_bytes_numeral
  replicate_numeral

lemma packable_txA: "packable txA" and toIsAddress_txA: "toIsAddress txA"
  by (simp_all add: packable_def toIsAddress_def txA_def bytesOf_def orEmptyHex_def orZero_def hex_eval)

lemma packable_txB: "packable txB" and toIsAddress_txB: "toIsAddress txB"
  by (simp_all add: packable_def toIsAddress_def txB_def bytesOf_def orEmptyHex_def orZero_def hex_eval)

lemma length_packedRecord: "length (packedRecord op a v d) = 65 + length a + length d"
  by (simp add: packedRecord_def)

lemma blobOf_Nil: "blobOf [] = []"
  by (simp add: blobOf_def)

lemma blobOf_txA: "blobOf [txA] = [0, 0xaa,0,0,0,0,0,0,0,0,0,0,0,0,0,0,0,0,0,0,1] @ be_bytes 32 1 @ be_bytes 32 0"
  by (simp add: blobOf_def txA_def packedRecord_def orCall_def orZero_def orEmptyHex_def bytesOf_def
      arrayify_def hexVal_def)

lemma encodeMultiSend_txA:
  "encodeMultiSend exampleLib [txA] addressArg =
     Inr \<lparr>to = relayAddress addressArg, value = 0,
        data =
          ''0x8d80ff0a0000000000000000000000000000000000000000000000000000000000000020000000000000000000000000000000000000000000000000000000000000005500aa00000000000000000000000000000000000001000000000000000000000000000000000000000000000000000000000000000100000000000000000000000000000000000000000000000000000000000000000000000000000000000000'',
        operation = DELEGATE_CALL\<rparr>"
proof -
  have p: "\<forall>tx \<in> set [txA]. packable tx" by (simp add: packable_txA)
  have l: "length (blobOf [txA]) = 85" by (simp add: blobOf_txA)
  show ?thesis
    unfolding encodeMultiSend_packable [OF p]
    by (simp add: l sighashBytes_def exampleLib_def word32_def padRight_def)
       (simp add: blobOf_txA hex_eval)
qed

lemma encodeMultiSend_Inr_D:
  assumes "encodeMultiSend L txs addressArg = Inr r"
  shows "r = \<lparr>to = relayAddress addressArg, value = 0,
          data = hexlify (sighashBytes L ''multiSend(bytes)'' @ word32 32 @
                   word32 (length (blobOf txs)) @ padRight (blobOf txs)),
          operation = DELEGATE_CALL\<rparr>"
  using assms encodeMultiSend_packable [OF encodeMultiSend_Inr_packable [OF assms], of L addressArg]
  by simp

lemma map_encodePacked_packable:
  assumes "\<forall>tx \<in> set txs. packable tx"
  shows "map encodePacked txs =
     map (\<lambda>b. Inr (hexlify b))
       (map (\<lambda>tx. packedRecord (orCall (tx_operation tx)) (bytesOf (tx_to tx))
                          (orZero (tx_value tx)) (bytesOf (orEmptyHex (tx_data tx)))) txs)"
  using assms by (simp add: encodePacked_packable)

lemma blobOf_txAB:
  "blobOf [txA, txB] =
     [0, 0xaa,0,0,0,0,0,0,0,0,0,0,0,0,0,0,0,0,0,0,1] @ be_bytes 32 1 @ be_bytes 32 0 @
     [1, 0xaa,0,0,0,0,0,0,0,0,0,0,0,0,0,0,0,0,0,0,2] @ be_bytes 32 0 @ be_bytes 32 2 @ [0x12, 0x34]"
  by (simp add: blobOf_def txA_def txB_def packedRecord_def orCall_def orZero_def orEmptyHex_def
      bytesOf_def arrayify_def hexVal_def numeral_2_eq_2)

lemma encodeMultiSend_txAB:
  "encodeMultiSend exampleLib [txA, txB] addressArg =
     Inr \<lparr>to = relayAddress addressArg, value = 0,
        data =
          ''0x8d80ff0a000000000000000000000000000000000000000000000000000000000000002000000000000000000000000000000000000000000000000000000000000000ac00aa000000000000000000000000000000000000010000000000000000000000000000000000000000000000000000000000000001000000000000000000000000000000000000000000000000000000000000000001aa000000000000000000000000000000000000020000000000000000000000000000000000000000000000000000000000000000000000000000000000000000000000000000000000000000000000000000000212340000000000000000000000000000000000000000'',
        operation = DELEGATE_CALL\<rparr>"
proof -
  have p: "\<forall>tx \<in> set [txA, txB]. packable tx" by (simp add: packable_txA packable_txB)
  have l: "length (blobOf [txA, txB]) = 172" by (simp add: blobOf_txAB)
  show ?thesis
    unfolding encodeMultiSend_packable [OF p]
    by (simp add: l sighashBytes_def exampleLib_def word32_def padRight_def)
       (simp add: blobOf_txAB hex_eval)
qed

lemma encodeSingle_Raw_coerce:
  "encodeSingle L (Raw (tx_to tx) (tx_value tx) (tx_data tx)) =
     Inr \<lparr>to = to (coerceTransactionInput tx), value = value (coerceTransactionInput tx),
          data = data (coerceTransactionInput tx)\<rparr>"
  by (simp add: coerceTransactionInput_def)

lemma length_blobOf:
  assumes "\<forall>tx \<in> set txs. toIsAddress tx"
  shows "length (blobOf txs) =
     sum_list (map (\<lambda>tx. 85 + length (bytesOf (data (coerceTransactionInput tx)))) txs)"
  using assms
  by (induction txs)
     (simp_all add: blobOf_def length_packedRecord toIsAddress_def coerceTransactionInput_def)

lemma length_padRight_ge: "length bs \<le> length (padRight bs)"
  by (simp add: padRight_def)

lemma encodeMultiSend_single_not_coerce:
  "encodeMultiSend L [x] addressArg \<noteq> Inr (coerceTransactionInput x)"
proof
  assume e: "encodeMultiSend L [x] addressArg = Inr (coerceTransactionInput x)"
  let ?s = "orEmptyHex (tx_data x)"
  let ?blob = "blobOf [x]"
  let ?big = "sighashBytes L ''multiSend(bytes)'' @ word32 32 @ word32 (length ?blob) @ padRight ?blob"
  have "data (coerceTransactionInput x) = hexlify ?big"
    using encodeMultiSend_Inr_D [OF e] by (metis ModuleTransaction.select_convs(1) MetaTransaction.select_convs(3))
  then have "?s = hexlify ?big" by (simp add: coerceTransactionInput_def)
  then have "bytesOf ?s = ?big" by (simp add: bytesOf_def arrayify_hexlify)
  then have "length (bytesOf ?s) = 68 + length (padRight ?blob)" by simp
  moreover have "length ?blob = 65 + length (bytesOf (tx_to x)) + length (bytesOf ?s)"
    by (simp add: blobOf_def length_packedRecord)
  ultimately show False using length_padRight_ge [of ?blob] by simp
qed

lemma getFunction_signature:
  assumes "CHR ''('' \<in> set key"
  shows "getFunction L iface key =
     (case functionsOf iface key of None \<Rightarrow> Inl NoMatchingFunction | Some f \<Rightarrow> Inr f)"
proof -
  have "hexVal (CHR ''('') = None" by (simp add: hexVal_def)
  moreover have "CHR ''('' \<in> set (take 2 key) \<or> CHR ''('' \<in> set (drop 2 key)"
    using assms by (metis Un_iff append_take_drop_id set_append)
  ultimately have "\<not> isHexString key"
    by (auto simp: isHexString_def list_all_iff)
  then show ?thesis using assms by (simp add: getFunction_def)
qed

lemma packWriter_two_static: "packWriter [(False, e1), (False, e2)] = e1 @ e2"
  by (simp add: packWriter_def headLength_def)

lemma encodeErc20Transfer_eq:
  "encodeErc20Transfer L recipient amount =
     (case getAddress L recipient of
        None \<Rightarrow> Inl InvalidAddress
      | Some a \<Rightarrow>
          if amount < 2 ^ 256
          then Inr (hexlify (sighashBytes L ''transfer(address,uint256)'' @
                      word32 (unat a) @ word32 amount))
          else Inl ValueOutOfRange)"
proof -
  have g: "getFunction L erc20Interface ''transfer(address,uint256)'' = Inr (hd erc20Interface)"
    by (simp add: getFunction_signature) (simp add: functionsOf_def erc20Interface_def)
  have i: "int amount < 2 ^ 256 \<longleftrightarrow> amount < 2 ^ 256"
    by (metis of_nat_less_iff of_nat_numeral of_nat_power)
  show ?thesis
    unfolding encodeErc20Transfer_def encodeFunctionData_def g
    by (simp add: erc20Interface_def bind_err_def packWriter_two_static i split: option.splits)
qed

lemma decodeTransfer_encoded:
  assumes "amount < 2 ^ 256"
  shows "decodeTransfer L (hexlify (sighashBytes L ''transfer(address,uint256)'' @
           word32 (unat (a :: 160 word)) @ word32 amount)) = Some (a, amount)"
proof -
  have u: "unat a < 2 ^ 160" using unsigned_less [of a, where ?'a = nat] by simp
  then have "unat a < 2 ^ 256" by (rule less_le_trans) simp
  then have 1: "from_be (word32 (unat a)) = unat a" by (rule from_be_word32)
  have 2: "from_be (word32 amount) = amount" by (rule from_be_word32 [OF assms])
  show ?thesis
    using u by (simp add: decodeTransfer_def arrayify_hexlify 1 2)
qed

lemma exampleLib_getAddress:
  "getAddress exampleLib ''0xaa00000000000000000000000000000000000001'' =
     Some 0xaa00000000000000000000000000000000000001"
  by (simp add: exampleLib_def arrayify_def hexVal_def from_be_def)

lemma isHexString_nonempty: "isHexString s \<Longrightarrow> s \<noteq> []"
  by (auto simp: isHexString_def)

lemma orDefault_conforms:
  "conforms ty v \<Longrightarrow> orDefault (Some v) (defaultValue ty) = v"
  by (cases ty; cases v) (auto simp: orDefault_def isHexString_nonempty)

lemma map_orDefault_conforms:
  assumes "\<forall>(name, ty) \<in> set ins. \<forall>v. inputValues name = Some v \<longrightarrow> conforms ty v"
  shows "map (\<lambda>(name, ty). orDefault (inputValues name) (defaultValue ty)) ins =
         suppliedOrDefault inputValues ins"
  unfolding suppliedOrDefault_def
proof (rule map_cong [OF refl])
  fix x assume x: "x \<in> set ins"
  obtain name ty where p: "x = (name, ty)" by (cases x)
  show "(case x of (name, ty) \<Rightarrow> orDefault (inputValues name) (defaultValue ty)) =
        (case x of (name, ty) \<Rightarrow> case inputValues name of None \<Rightarrow> defaultValue ty | Some v \<Rightarrow> v)"
  proof (cases "inputValues name")
    case None
    then show ?thesis by (simp add: p orDefault_def)
  next
    case (Some v)
    with assms x p have "conforms ty v" by auto
    then show ?thesis using Some by (simp add: p orDefault_conforms)
  qed
qed

lemma wordType_static: "wordType t \<Longrightarrow> \<not> dynamic t"
  by (cases t) simp_all

lemma length_padRight_word: "1 \<le> length bs \<Longrightarrow> length bs \<le> 32 \<Longrightarrow> length (padRight bs) = 32"
  by (cases "length bs = 32") (simp_all add: padRight_def)

lemma encode_wordType_length:
  assumes "wordType t" and "encode L t v = Inr w"
  shows "length w = 32"
  using assms
  by (cases t; cases v)
     (auto simp: bind_err_Inr_iff length_padRight_word split: if_splits option.splits)

lemma encodeAll_wordTypes:
  assumes "list_all wordType tys" and "encodeAll L tys vs = Inr es"
  shows "length es = length tys \<and> length vs = length tys \<and>
         (\<forall>i < length tys. fst (es ! i) = False \<and> length (snd (es ! i)) = 32 \<and>
            encode L (tys ! i) (vs ! i) = Inr (snd (es ! i)))"
  using assms
proof (induction tys arbitrary: vs es)
  case Nil
  then show ?case by (cases vs) simp_all
next
  case (Cons t tys)
  from Cons.prems(2) obtain v vs' where vs: "vs = v # vs'" by (cases vs) auto
  from Cons.prems(2) obtain e es' where e: "encode L t v = Inr e"
    and es': "encodeAll L tys vs' = Inr es'" and es: "es = (dynamic t, e) # es'"
    by (auto simp: vs bind_err_Inr_iff)
  from Cons.prems(1) have wt: "wordType t" and wts: "list_all wordType tys" by simp_all
  note ih = Cons.IH [OF wts es']
  have le: "length e = 32" by (rule encode_wordType_length [OF wt e])
  have nd: "\<not> dynamic t" by (rule wordType_static [OF wt])
  show ?case
  proof (intro conjI allI impI)
    show "length es = length (t # tys)" using ih by (simp add: es)
    show "length vs = length (t # tys)" using ih by (simp add: vs)
    fix i assume i: "i < length (t # tys)"
    show "fst (es ! i) = False" using ih i nd by (cases i) (simp_all add: es)
    show "length (snd (es ! i)) = 32" using ih i le by (cases i) (simp_all add: es)
    show "encode L ((t # tys) ! i) (vs ! i) = Inr (snd (es ! i))"
      using ih i e by (cases i) (simp_all add: es vs)
  qed
qed

lemma heads_static: "\<forall>x \<in> set xs. \<not> fst x \<Longrightarrow> heads off xs = concat (map snd xs)"
  by (induction xs arbitrary: off) auto

lemma filter_static: "\<forall>x \<in> set xs. \<not> fst x \<Longrightarrow> filter fst xs = []"
  by (induction xs) auto

lemma packWriter_static: "\<forall>x \<in> set xs. \<not> fst x \<Longrightarrow> packWriter xs = concat (map snd xs)"
  by (simp add: packWriter_def heads_static filter_static)

lemma concat_words_nth:
  assumes "\<forall>w \<in> set ws. length w = 32" and "i < length ws"
  shows "take 32 (drop (32 * i) (concat ws)) = ws ! i"
  using assms
proof (induction ws arbitrary: i)
  case Nil
  then show ?case by simp
next
  case (Cons w ws)
  then have w: "length w = 32" by simp
  show ?case
  proof (cases i)
    case 0
    then show ?thesis using w by simp
  next
    case (Suc j)
    with Cons.prems have j: "j < length ws" by simp
    have "drop (32 * Suc j) (w @ concat ws) = drop (32 * j) (concat ws)"
      using w by simp
    then show ?thesis using Cons.IH [of j] Cons.prems(1) j by (simp add: Suc)
  qed
qed

lemma length_concat_words:
  "\<forall>w \<in> set ws. length w = 32 \<Longrightarrow> length (concat ws) = 32 * length ws"
  by (induction ws) simp_all

lemma be_bytes_zero: "be_bytes w 0 = replicate w 0"
  by (induction w) (simp_all add: replicate_append_same)

lemma word32_zero: "word32 0 = replicate 32 0"
  by (simp add: word32_def be_bytes_zero)

lemma encodeFunctionData_wordTypes:
  assumes f: "functionsOf abi sig = Some f" and p: "CHR ''('' \<in> set sig"
    and w: "list_all wordType (map snd (inputs f))"
    and d: "encodeFunctionData L abi sig vs = Inr d"
  shows "length (bytesOf d) = 4 + 32 * length (inputs f) \<and>
         (\<forall>i < length (inputs f).
            encode L (snd (inputs f ! i)) (vs ! i) = Inr (take 32 (drop (4 + 32 * i) (bytesOf d))))"
proof -
  let ?tys = "map snd (inputs f)"
  have g: "getFunction L abi sig = Inr f" by (simp add: getFunction_signature [OF p] f)
  from d obtain args where a: "encode L (TTuple ?tys) (VList vs) = Inr args"
    and dd: "d = hexlify (sighashBytes L (signature f) @ args)"
    by (auto simp: encodeFunctionData_def g bind_err_Inr_iff)
  from a obtain es where es: "encodeAll L ?tys vs = Inr es" and ar: "args = packWriter es"
    by (auto simp: bind_err_Inr_iff split: if_splits)
  note e = encodeAll_wordTypes [OF w es]
  have el: "length es = length (inputs f)" using e by simp
  have st: "\<forall>x \<in> set es. \<not> fst x"
  proof
    fix x assume "x \<in> set es"
    then obtain i where "i < length es" and "x = es ! i" by (auto simp: in_set_conv_nth)
    then show "\<not> fst x" using e el by simp
  qed
  have l32: "\<forall>w \<in> set (map snd es). length w = 32"
  proof
    fix w assume "w \<in> set (map snd es)"
    then obtain i where "i < length es" and "w = snd (es ! i)" by (auto simp: in_set_conv_nth)
    then show "length w = 32" using e el by simp
  qed
  have args: "args = concat (map snd es)" by (simp add: ar packWriter_static [OF st])
  have b: "bytesOf d = sighashBytes L (signature f) @ concat (map snd es)"
    by (simp add: dd args bytesOf_def arrayify_hexlify)
  have len: "length (bytesOf d) = 4 + 32 * length (inputs f)"
    using e by (simp add: b length_concat_words [OF l32])
  have nth: "\<forall>i < length (inputs f).
            encode L (snd (inputs f ! i)) (vs ! i) = Inr (take 32 (drop (4 + 32 * i) (bytesOf d)))"
  proof (intro allI impI)
    fix i assume i: "i < length (inputs f)"
    then have ie: "i < length (map snd es)" using e by simp
    have "drop (4 + 32 * i) (bytesOf d) = drop (32 * i) (concat (map snd es))"
      by (simp add: b)
    then have "take 32 (drop (4 + 32 * i) (bytesOf d)) = snd (es ! i)"
      using concat_words_nth [OF l32 ie] ie by simp
    moreover have "encode L (snd (inputs f ! i)) (vs ! i) = Inr (snd (es ! i))"
      using e i by simp
    ultimately show "encode L (snd (inputs f ! i)) (vs ! i) =
        Inr (take 32 (drop (4 + 32 * i) (bytesOf d)))" by simp
  qed
  from len nth show ?thesis by (intro conjI)
qed

lemma exampleLib_getAddress_zero:
  "getAddress exampleLib ''0x0000000000000000000000000000000000000000'' = Some 0"
  by (simp add: exampleLib_def arrayify_def hexVal_def from_be_def)

lemma bytesOf_empty: "bytesOf ''0x'' = []"
  by (simp add: bytesOf_def arrayify_def)

lemma encodeFunctionData_bytes:
  assumes "encodeFunctionData L abi key vs = Inr d"
  shows "4 \<le> length (bytesOf d)"
proof -
  from assms obtain f args where "getFunction L abi key = Inr f"
    and "d = hexlify (sighashBytes L (signature f) @ args)"
    unfolding encodeFunctionData_def bind_err_Inr_iff by blast
  then show ?thesis by (simp add: bytesOf_def arrayify_hexlify)
qed

lemma encodeFunctionCall_bytes:
  assumes "encodeFunctionCall L abi sig inputValues = Inr d"
  shows "4 \<le> length (bytesOf d)"
  using assms
  by (auto simp: encodeFunctionCall_def encodeFunctionData_bytes split: option.splits)

lemma encodeSingle_data_bytes:
  assumes "encodeSingle L x = Inr m" and "\<not> rawLike x" and "\<forall>t a. x \<noteq> TransferFunds t a None"
  shows "4 \<le> length (bytesOf (data m))"
proof (cases x)
  case (TransferFunds t a tok)
  with assms(3) obtain token where tok: "tok = Some token" by (cases tok) auto
  from assms(1) obtain d where "encodeErc20Transfer L t a = Inr d" and "data m = d"
    by (auto simp: TransferFunds tok bind_err_Inr_iff)
  then show ?thesis by (auto simp: encodeErc20Transfer_def encodeFunctionData_bytes)
next
  case (TransferCollectible f t i a)
  from assms(1) obtain d where "encodeErc721Transfer L f t i = Inr d" and "data m = d"
    by (auto simp: TransferCollectible bind_err_Inr_iff)
  then show ?thesis by (auto simp: encodeErc721Transfer_def encodeFunctionData_bytes)
next
  case (CallContract t v abi sig iv)
  from assms(1) obtain d where "encodeFunctionCall L abi sig iv = Inr d" and "data m = d"
    by (auto simp: CallContract bind_err_Inr_iff)
  then show ?thesis by (auto simp: encodeFunctionCall_bytes)
next
  case (Raw t v d)
  with assms(2) show ?thesis by simp
qed

lemma orCall_case: "orCall op = (case op of None \<Rightarrow> CALL | Some c \<Rightarrow> c)"
  by (cases op; cases "the op") (simp_all add: orCall_def)

lemma orZero_case: "orZero v = (case v of None \<Rightarrow> 0 | Some n \<Rightarrow> n)"
  by (simp add: orZero_def split: option.splits)

lemma orEmptyHex_case:
  "orEmptyHex d = (case d of None \<Rightarrow> ''0x'' | Some s \<Rightarrow> if s = [] then ''0x'' else s)"
  by (simp add: orEmptyHex_def split: option.splits)

lemma coerce_entryOf:
  "coerceTransactionInput (entryOf op x) =
     (case x of
        TransferFunds t amount token \<Rightarrow>
          \<lparr>to = t, value = 0, data = ''0x'', operation = orCall op\<rparr>
      | TransferCollectible f t tokenId address \<Rightarrow>
          \<lparr>to = t, value = 0, data = ''0x'', operation = orCall op\<rparr>
      | CallContract t v abi sig inputValues \<Rightarrow>
          \<lparr>to = t, value = orZero v, data = ''0x'', operation = orCall op\<rparr>
      | Raw t v d \<Rightarrow>
          \<lparr>to = t, value = orZero v, data = orEmptyHex d, operation = orCall op\<rparr>)"
  by (cases x) (simp_all add: coerceTransactionInput_def orZero_def orEmptyHex_def)

lemma encodeSingle_entryOf:
  "(encodeSingle L x = Inr (MetaTransaction.truncate (coerceTransactionInput (entryOf op x))))
     = rawLike x"
proof (cases "rawLike x")
  case True
  then show ?thesis
    by (cases x) (simp_all add: coerceTransactionInput_def MetaTransaction.truncate_def
        orZero_def orEmptyHex_def)
next
  case False
  show ?thesis
  proof (cases "\<exists>t a. x = TransferFunds t a None")
    case True
    then obtain t a where x: "x = TransferFunds t a None" by auto
    with False have "a \<noteq> 0" by simp
    then show ?thesis by (simp add: x coerceTransactionInput_def MetaTransaction.truncate_def orZero_def)
  next
    case nf: False
    have "encodeSingle L x \<noteq> Inr (MetaTransaction.truncate (coerceTransactionInput (entryOf op x)))"
    proof
      assume e: "encodeSingle L x = Inr (MetaTransaction.truncate (coerceTransactionInput (entryOf op x)))"
      from encodeSingle_data_bytes [OF e False] nf
      have "4 \<le> length (bytesOf (data (MetaTransaction.truncate (coerceTransactionInput (entryOf op x)))))"
        by simp
      moreover have "data (MetaTransaction.truncate (coerceTransactionInput (entryOf op x))) = ''0x''"
        using False nf
        by (cases x) (simp_all add: coerceTransactionInput_def MetaTransaction.truncate_def orEmptyHex_def)
      ultimately show False by (simp add: bytesOf_empty)
    qed
    with False show ?thesis by simp
  qed
qed

lemma encodeSingle_carries:
  "(\<exists>m. encodeSingle L x = Inr m \<and>
        carries (recordOf (coerceTransactionInput (entryOf op x))) (orCall op) m)
     = rawLike x"
proof (cases "rawLike x")
  case True
  then have "encodeSingle L x = Inr (MetaTransaction.truncate (coerceTransactionInput (entryOf op x)))"
    by (simp add: encodeSingle_entryOf)
  moreover have "carries (recordOf (coerceTransactionInput (entryOf op x))) (orCall op)
      (MetaTransaction.truncate (coerceTransactionInput (entryOf op x)))"
    by (cases x) (simp_all add: carries_def recordOf_def coerceTransactionInput_def MetaTransaction.truncate_def)
  ultimately show ?thesis using True by blast
next
  case False
  have "\<not> (\<exists>m. encodeSingle L x = Inr m \<and>
        carries (recordOf (coerceTransactionInput (entryOf op x))) (orCall op) m)"
  proof
    assume "\<exists>m. encodeSingle L x = Inr m \<and>
        carries (recordOf (coerceTransactionInput (entryOf op x))) (orCall op) m"
    then obtain m where e: "encodeSingle L x = Inr m"
      and c: "carries (recordOf (coerceTransactionInput (entryOf op x))) (orCall op) m" by auto
    from c have v: "value m = value (coerceTransactionInput (entryOf op x))"
      and d: "bytesOf (data m) = bytesOf (data (coerceTransactionInput (entryOf op x)))"
      by (simp_all add: carries_def recordOf_def)
    show False
    proof (cases "\<exists>t a. x = TransferFunds t a None")
      case True
      then obtain t a where x: "x = TransferFunds t a None" by auto
      with False have "a \<noteq> 0" by simp
      with e v show False by (auto simp: x coerceTransactionInput_def orZero_def)
    next
      case nf: False
      from encodeSingle_data_bytes [OF e False] nf have "4 \<le> length (bytesOf (data m))" by simp
      moreover have "data (coerceTransactionInput (entryOf op x)) = ''0x''"
        using False nf by (cases x) (simp_all add: coerceTransactionInput_def orEmptyHex_def)
      ultimately show False using d by (simp add: bytesOf_empty)
    qed
  qed
  with False show ?thesis by simp
qed

lemma entryOf_txT:
  "entryOf None txT =
     \<lparr>tx_operation = None, tx_to = ''0xaa00000000000000000000000000000000000001'',
      tx_value = None, tx_data = None\<rparr>"
  by (simp add: txT_def)

lemma entryOf_txR: "entryOf (Some DELEGATE_CALL) txR = txB"
  by (simp add: txR_def txB_def)

lemma packable_txT: "packable (entryOf None txT)" and toIsAddress_txT: "toIsAddress (entryOf None txT)"
  by (simp_all add: packable_def toIsAddress_def entryOf_txT bytesOf_def orEmptyHex_def orZero_def hex_eval)

lemma blobOf_txT:
  "blobOf [entryOf None txT] =
     [0, 0xaa,0,0,0,0,0,0,0,0,0,0,0,0,0,0,0,0,0,0,1] @ be_bytes 32 0 @ be_bytes 32 0"
  by (simp add: blobOf_def entryOf_txT packedRecord_def orCall_def orZero_def orEmptyHex_def bytesOf_def
      arrayify_def hexVal_def)

lemma encodeMultiSend_txT:
  "encodeMultiSend exampleLib [entryOf None txT] addressArg =
     Inr \<lparr>to = relayAddress addressArg, value = 0,
        data =
          ''0x8d80ff0a0000000000000000000000000000000000000000000000000000000000000020000000000000000000000000000000000000000000000000000000000000005500aa00000000000000000000000000000000000001000000000000000000000000000000000000000000000000000000000000000000000000000000000000000000000000000000000000000000000000000000000000000000000000000000'',
        operation = DELEGATE_CALL\<rparr>"
proof -
  have p: "\<forall>tx \<in> set [entryOf None txT]. packable tx" by (simp add: packable_txT)
  have l: "length (blobOf [entryOf None txT]) = 85" by (simp add: blobOf_txT)
  show ?thesis
    unfolding encodeMultiSend_packable [OF p]
    by (simp add: l sighashBytes_def exampleLib_def word32_def padRight_def)
       (simp add: blobOf_txT hex_eval)
qed

lemma blobOf_txTB:
  "blobOf [entryOf None txT, txB] =
     [0, 0xaa,0,0,0,0,0,0,0,0,0,0,0,0,0,0,0,0,0,0,1] @ be_bytes 32 0 @ be_bytes 32 0 @
     [1, 0xaa,0,0,0,0,0,0,0,0,0,0,0,0,0,0,0,0,0,0,2] @ be_bytes 32 0 @ be_bytes 32 2 @ [0x12, 0x34]"
  by (simp add: blobOf_def entryOf_txT txB_def packedRecord_def orCall_def orZero_def orEmptyHex_def
      bytesOf_def arrayify_def hexVal_def numeral_2_eq_2)

lemma encodeMultiSend_txTB:
  "encodeMultiSend exampleLib [entryOf None txT, txB] addressArg =
     Inr \<lparr>to = relayAddress addressArg, value = 0,
        data =
          ''0x8d80ff0a000000000000000000000000000000000000000000000000000000000000002000000000000000000000000000000000000000000000000000000000000000ac00aa000000000000000000000000000000000000010000000000000000000000000000000000000000000000000000000000000000000000000000000000000000000000000000000000000000000000000000000001aa000000000000000000000000000000000000020000000000000000000000000000000000000000000000000000000000000000000000000000000000000000000000000000000000000000000000000000000212340000000000000000000000000000000000000000'',
        operation = DELEGATE_CALL\<rparr>"
proof -
  have p: "\<forall>tx \<in> set [entryOf None txT, txB]. packable tx" by (simp add: packable_txT packable_txB)
  have l: "length (blobOf [entryOf None txT, txB]) = 172" by (simp add: blobOf_txTB)
  show ?thesis
    unfolding encodeMultiSend_packable [OF p]
    by (simp add: l sighashBytes_def exampleLib_def word32_def padRight_def)
       (simp add: blobOf_txTB hex_eval)
qed

lemma encodeSingle_txT:
  "encodeSingle exampleLib txT =
     Inr \<lparr>to = ''0x00000000000000000000000000000000000000c0'', value = 0,
          data = ''0xa9059cbb000000000000000000000000aa000000000000000000000000000000000000010000000000000000000000000000000000000000000000000000000000000102''\<rparr>"
  unfolding txT_def
  by (simp add: encodeErc20Transfer_eq exampleLib_getAddress bind_err_def)
     (simp add: sighashBytes_def exampleLib_def word32_def hex_eval)

lemma recordOf_txT:
  "recordOf (coerceTransactionInput (entryOf None txT)) =
     \<lparr>rec_operation = CALL,
      rec_to = [0xaa, 0, 0, 0, 0, 0, 0, 0, 0, 0, 0, 0, 0, 0, 0, 0, 0, 0, 0, 1],
      rec_value = 0, rec_data = []\<rparr>"
  by (simp add: recordOf_def coerceTransactionInput_def entryOf_txT orCall_def orZero_def
      orEmptyHex_def bytesOf_def arrayify_def hexVal_def)

lemma recordOf_txB:
  "recordOf (coerceTransactionInput txB) =
     \<lparr>rec_operation = DELEGATE_CALL,
      rec_to = [0xaa, 0, 0, 0, 0, 0, 0, 0, 0, 0, 0, 0, 0, 0, 0, 0, 0, 0, 0, 2],
      rec_value = 0, rec_data = [0x12, 0x34]\<rparr>"
  by (simp add: recordOf_def coerceTransactionInput_def txB_def orCall_def orZero_def
      orEmptyHex_def bytesOf_def arrayify_def hexVal_def)

lemma decode_blobOf:
  assumes "\<forall>tx \<in> set txs. packable tx \<and> toIsAddress tx" and "length (blobOf txs) < 2 ^ 256"
  shows "Option.bind
           (decodeMultiSend L (hexlify (sighashBytes L ''multiSend(bytes)'' @ word32 32 @
              word32 (length (blobOf txs)) @ padRight (blobOf txs)))) unpackRecords =
         Some (map (\<lambda>tx. recordOf (coerceTransactionInput tx)) txs)"
  by (simp add: decodeMultiSend_encoded [OF assms(2)] unpackRecords_blobOf [OF assms(1)])

lemma multiSend_single: "multiSend L this [e] = Inr (coerceTransactionInput e)"
  by (simp add: multiSend_def)

lemma valueOf_inherited: "getProperty noInputValues ''valueOf'' = Some (VObject (Some 0))"
  by (simp add: getProperty_def noInputValues_def objectPrototype_def)

lemma packWriter_one_static: "packWriter [(False, e)] = e"
  by (simp add: packWriter_def headLength_def)

lemma getFunction_valueOf:
  "getFunction L valueOfInterface ''p(bool)'' = Inr \<lparr>signature = ''p(bool)'', inputs = [(''valueOf'', TBool)]\<rparr>"
  by (simp add: getFunction_signature) (simp add: functionsOf_def valueOfInterface_def)

lemma encodeFunctionData_valueOf:
  "encodeFunctionData L valueOfInterface ''p(bool)'' [v] =
     Inr (hexlify (sighashBytes L ''p(bool)'' @ word32 (if truthy v then 1 else 0)))"
  unfolding encodeFunctionData_def getFunction_valueOf
  by (simp add: bind_err_def packWriter_one_static)

lemma encodeFunctionCall_valueOf:
  "encodeFunctionCall L valueOfInterface ''p(bool)'' noInputValues =
     Inr (hexlify (sighashBytes L ''p(bool)'' @ word32 1))"
proof -
  have f: "functionsOf valueOfInterface ''p(bool)'' =
      Some \<lparr>signature = ''p(bool)'', inputs = [(''valueOf'', TBool)]\<rparr>"
    by (simp add: functionsOf_def valueOfInterface_def)
  have "orDefault (getProperty noInputValues ''valueOf'') (defaultValue TBool) = VObject (Some 0)"
    by (simp add: valueOf_inherited orDefault_def)
  then show ?thesis
    by (simp add: encodeFunctionCall_def f encodeFunctionData_valueOf)
qed

section \<open>The claims\<close>

subsection \<open>The packed record\<close>



subsection \<open>The multiSend call\<close>

text \<open>
  C4. Whenever \<open>encodeMultiSend\<close> returns for a list of two or more entries, the
  result has operation \<open>DELEGATE_CALL\<close>, its \<open>to\<close> is the relay address (the
  caller's address argument, the default \<open>MULTI_SEND_CONTRACT_ADDRESS\<close> when the argument
  is absent or empty), and its \<open>data\<close> is the ABI-encoded call of \<^verbatim>\<open>multiSend(bytes)\<close>
  on the concatenation in order of the packed records of all entries: selector, the
  offset 32, the length of the blob, the blob padded to whole words. For such a list
  \<open>MultiSender.multiSend\<close> submits exactly this call.
\<close>

theorem encodeMultiSend_batch_call:
  assumes "2 \<le> length txs" and "encodeMultiSend L txs addressArg = Inr r"
  shows "operation r = DELEGATE_CALL \<and>
         to r = (case addressArg of
                   None \<Rightarrow> MULTI_SEND_CONTRACT_ADDRESS
                 | Some a \<Rightarrow> if a = [] then MULTI_SEND_CONTRACT_ADDRESS else a) \<and>
         (\<exists>recs. map encodePacked txs = map (\<lambda>b. Inr (hexlify b)) recs \<and>
            encodeFunctionData L MULTI_SEND_ABI ''multiSend'' [VStr (hexlify (concat recs))] =
              Inr (data r) \<and>
            data r = hexlify (sighashBytes L ''multiSend(bytes)'' @ word32 32 @
                       word32 (length (concat recs)) @ padRight (concat recs))) \<and>
         multiSend L this txs = encodeMultiSend L txs (Some (multiSendContractAddress this))"
proof -
  let ?recs = "map (\<lambda>tx. packedRecord (orCall (tx_operation tx)) (bytesOf (tx_to tx))
                          (orZero (tx_value tx)) (bytesOf (orEmptyHex (tx_data tx)))) txs"
  have p: "\<forall>tx \<in> set txs. packable tx" by (rule encodeMultiSend_Inr_packable [OF assms(2)])
  note r = encodeMultiSend_Inr_D [OF assms(2)]
  have b: "blobOf txs = concat ?recs" by (simp add: blobOf_def)
  have 1: "operation r = DELEGATE_CALL" by (simp add: r)
  have 2: "to r = (case addressArg of
                   None \<Rightarrow> MULTI_SEND_CONTRACT_ADDRESS
                 | Some a \<Rightarrow> if a = [] then MULTI_SEND_CONTRACT_ADDRESS else a)"
    by (simp add: r relayAddress_def)
  have 3: "map encodePacked txs = map (\<lambda>b. Inr (hexlify b)) ?recs"
    by (rule map_encodePacked_packable [OF p])
  have 4: "data r = hexlify (sighashBytes L ''multiSend(bytes)'' @ word32 32 @
                       word32 (length (concat ?recs)) @ padRight (concat ?recs))"
    by (simp add: r b)
  have 5: "encodeFunctionData L MULTI_SEND_ABI ''multiSend'' [VStr (hexlify (concat ?recs))] =
              Inr (data r)"
    by (simp only: 4 encodeFunctionData_multiSend)
  have 6: "multiSend L this txs = encodeMultiSend L txs (Some (multiSendContractAddress this))"
    using assms(1) by (simp add: multiSend_def)
  from 3 4 5 have "\<exists>recs. map encodePacked txs = map (\<lambda>b. Inr (hexlify b)) recs \<and>
            encodeFunctionData L MULTI_SEND_ABI ''multiSend'' [VStr (hexlify (concat recs))] =
              Inr (data r) \<and>
            data r = hexlify (sighashBytes L ''multiSend(bytes)'' @ word32 32 @
                       word32 (length (concat recs)) @ padRight (concat recs))"
    by blast
  with 1 2 6 show ?thesis by (intro conjI)
qed

theorem encodeMultiSend_batch_call_witness:
  "2 \<le> length [txA, txB] \<and>
   encodeMultiSend exampleLib [txA, txB] None =
     Inr \<lparr>to = ''0x8D29bE29923b68abfDD21e541b9374737B49cdAD'', value = 0,
        data =
          ''0x8d80ff0a000000000000000000000000000000000000000000000000000000000000002000000000000000000000000000000000000000000000000000000000000000ac00aa000000000000000000000000000000000000010000000000000000000000000000000000000000000000000000000000000001000000000000000000000000000000000000000000000000000000000000000001aa000000000000000000000000000000000000020000000000000000000000000000000000000000000000000000000000000000000000000000000000000000000000000000000000000000000000000000000212340000000000000000000000000000000000000000'',
        operation = DELEGATE_CALL\<rparr> \<and>
   multiSend exampleLib (newMultiSender ''0x00000000000000000000000000000000000000a0'' None) [txA, txB] =
     encodeMultiSend exampleLib [txA, txB] (Some MULTI_SEND_CONTRACT_ADDRESS)"
proof -
  have 1: "2 \<le> length [txA, txB]" by simp
  note e = encodeMultiSend_txAB [of None]
  from encodeMultiSend_batch_call [OF 1 e,
      of "newMultiSender ''0x00000000000000000000000000000000000000a0'' None"] e
  show ?thesis
    by (simp add: relayAddress_def MULTI_SEND_CONTRACT_ADDRESS_def newMultiSender_def)
qed

text \<open>
  C8. Whenever \<open>encodeMultiSend\<close> returns, for any list, its \<open>to\<close> is the fixed
  default address when the address argument is the empty string (or is left out), and
  the argument itself, verbatim, when it is a non-empty string.
\<close>

theorem encodeMultiSend_relay_address:
  assumes "encodeMultiSend L txs addressArg = Inr r"
  shows "to r = (case addressArg of
                   None \<Rightarrow> ''0x8D29bE29923b68abfDD21e541b9374737B49cdAD''
                 | Some a \<Rightarrow> if a = [] then ''0x8D29bE29923b68abfDD21e541b9374737B49cdAD'' else a)"
  using assms
  by (cases addressArg)
     (auto simp: encodeMultiSend_def Let_def bind_err_Inr_iff MULTI_SEND_CONTRACT_ADDRESS_def)

theorem encodeMultiSend_relay_address_witness:
  "(\<exists>r. encodeMultiSend exampleLib [txA] (Some []) = Inr r \<and>
        to r = ''0x8D29bE29923b68abfDD21e541b9374737B49cdAD'')
   \<and> (\<exists>r. encodeMultiSend exampleLib [txA] (Some ''0x00000000000000000000000000000000000000fe'') = Inr r \<and>
        to r = ''0x00000000000000000000000000000000000000fe'')"
proof -
  note a = encodeMultiSend_txA [of "Some []"]
  note b = encodeMultiSend_txA [of "Some ''0x00000000000000000000000000000000000000fe''"]
  from encodeMultiSend_relay_address [OF a] encodeMultiSend_relay_address [OF b] a b
  show ?thesis by simp
qed

text \<open>
  C9. On the empty list \<open>encodeMultiSend\<close> does not fail: it returns a module
  transaction with operation \<open>DELEGATE_CALL\<close>, \<open>to\<close> the relay address, value 0, and
  as \<open>data\<close> the ABI encoding of \<^verbatim>\<open>multiSend\<close> applied to the empty byte string
  \<^verbatim>\<open>0x\<close> (selector, offset 32, length 0). \<open>MultiSender.multiSend\<close> takes this path
  on the empty list.
\<close>

theorem encodeMultiSend_empty:
  "encodeMultiSend L [] addressArg =
     Inr \<lparr>to = (case addressArg of
                  None \<Rightarrow> MULTI_SEND_CONTRACT_ADDRESS
                | Some a \<Rightarrow> if a = [] then MULTI_SEND_CONTRACT_ADDRESS else a),
          value = 0,
          data = hexlify (sighashBytes L ''multiSend(bytes)'' @ word32 32 @ word32 0),
          operation = DELEGATE_CALL\<rparr>
   \<and> encodeFunctionData L MULTI_SEND_ABI ''multiSend'' [VStr ''0x''] =
       Inr (hexlify (sighashBytes L ''multiSend(bytes)'' @ word32 32 @ word32 0))
   \<and> multiSend L this [] = encodeMultiSend L [] (Some (multiSendContractAddress this))"
proof -
  have e: "\<forall>tx \<in> set []. packable tx" by simp
  have h: "hexlify [] = ''0x''" by (simp add: hexlify_def)
  have 1: "encodeMultiSend L [] addressArg =
     Inr \<lparr>to = relayAddress addressArg, value = 0,
          data = hexlify (sighashBytes L ''multiSend(bytes)'' @ word32 32 @ word32 0),
          operation = DELEGATE_CALL\<rparr>"
    by (simp add: encodeMultiSend_packable [OF e] blobOf_Nil padRight_def)
  have 2: "encodeFunctionData L MULTI_SEND_ABI ''multiSend'' [VStr ''0x''] =
       Inr (hexlify (sighashBytes L ''multiSend(bytes)'' @ word32 32 @ word32 0))"
    using encodeFunctionData_multiSend [of L "[]"] by (simp add: h padRight_def)
  have 3: "multiSend L this [] = encodeMultiSend L [] (Some (multiSendContractAddress this))"
    by (simp add: multiSend_def)
  show ?thesis using 1 2 3 by (simp add: relayAddress_def)
qed

theorem encodeMultiSend_empty_witness:
  "encodeMultiSend exampleLib [] None =
     Inr \<lparr>to = ''0x8D29bE29923b68abfDD21e541b9374737B49cdAD'', value = 0,
          data = ''0x8d80ff0a00000000000000000000000000000000000000000000000000000000000000200000000000000000000000000000000000000000000000000000000000000000'',
          operation = DELEGATE_CALL\<rparr>"
proof -
  have "hexlify (sighashBytes exampleLib ''multiSend(bytes)'' @ word32 32 @ word32 0) =
    ''0x8d80ff0a00000000000000000000000000000000000000000000000000000000000000200000000000000000000000000000000000000000000000000000000000000000''"
    by (simp add: sighashBytes_def exampleLib_def word32_def hex_eval)
  then show ?thesis
    using encodeMultiSend_empty [of exampleLib None]
    by (simp add: MULTI_SEND_CONTRACT_ADDRESS_def)
qed



subsection \<open>Order of the records\<close>

text \<open>
  C2, as the claim states it, fails: a record holds the properties \<open>to\<close>, \<open>value\<close>
  and \<open>data\<close> of its entry, and \<open>encodeSingle\<close> is not called. For the one entry
  \<open>txT\<close>, a transfer of 258 units of the token \<^verbatim>\<open>0x00...c0\<close> to \<^verbatim>\<open>0xaa...01\<close>,
  the blob inside the result of \<open>encodeMultiSend\<close> is one record, a call of
  \<^verbatim>\<open>0xaa...01\<close> with value 0 and no data; \<open>encodeSingle\<close> gives for \<open>txT\<close> a call
  of the token contract with the 68 bytes of a \<^verbatim>\<open>transfer\<close> as data.
\<close>

theorem encodeMultiSend_records_counterexample:
  "txT = TransferFunds ''0xaa00000000000000000000000000000000000001'' 258
           (Some ''0x00000000000000000000000000000000000000c0'')
   \<and> encodeMultiSend exampleLib [entryOf None txT] None =
       Inr \<lparr>to = ''0x8D29bE29923b68abfDD21e541b9374737B49cdAD'', value = 0,
          data =
            ''0x8d80ff0a0000000000000000000000000000000000000000000000000000000000000020000000000000000000000000000000000000000000000000000000000000005500aa00000000000000000000000000000000000001000000000000000000000000000000000000000000000000000000000000000000000000000000000000000000000000000000000000000000000000000000000000000000000000000000'',
          operation = DELEGATE_CALL\<rparr>
   \<and> Option.bind
         (decodeMultiSend exampleLib
            ''0x8d80ff0a0000000000000000000000000000000000000000000000000000000000000020000000000000000000000000000000000000000000000000000000000000005500aa00000000000000000000000000000000000001000000000000000000000000000000000000000000000000000000000000000000000000000000000000000000000000000000000000000000000000000000000000000000000000000000'')
         unpackRecords =
       Some [\<lparr>rec_operation = CALL,
              rec_to = [0xaa, 0, 0, 0, 0, 0, 0, 0, 0, 0, 0, 0, 0, 0, 0, 0, 0, 0, 0, 1],
              rec_value = 0, rec_data = []\<rparr>]
   \<and> encodeSingle exampleLib txT =
       Inr \<lparr>to = ''0x00000000000000000000000000000000000000c0'', value = 0,
            data = ''0xa9059cbb000000000000000000000000aa000000000000000000000000000000000000010000000000000000000000000000000000000000000000000000000000000102''\<rparr>
   \<and> bytesOf ''0x00000000000000000000000000000000000000c0'' =
       [0, 0, 0, 0, 0, 0, 0, 0, 0, 0, 0, 0, 0, 0, 0, 0, 0, 0, 0, 0xc0]
   \<and> length (bytesOf ''0xa9059cbb000000000000000000000000aa000000000000000000000000000000000000010000000000000000000000000000000000000000000000000000000000000102'') = 68"
proof -
  have p: "\<forall>tx \<in> set [entryOf None txT]. packable tx \<and> toIsAddress tx"
    by (simp add: packable_txT toIsAddress_txT)
  have l: "length (blobOf [entryOf None txT]) < 2 ^ 256" by (simp add: blobOf_txT)
  note e = encodeMultiSend_txT [of None, unfolded relayAddress_def MULTI_SEND_CONTRACT_ADDRESS_def option.case]
  have h: "hexlify (sighashBytes exampleLib ''multiSend(bytes)'' @ word32 32 @
              word32 (length (blobOf [entryOf None txT])) @ padRight (blobOf [entryOf None txT])) =
      ''0x8d80ff0a0000000000000000000000000000000000000000000000000000000000000020000000000000000000000000000000000000000000000000000000000000005500aa00000000000000000000000000000000000001000000000000000000000000000000000000000000000000000000000000000000000000000000000000000000000000000000000000000000000000000000000000000000000000000000''"
    using e encodeMultiSend_packable [of "[entryOf None txT]" exampleLib None] packable_txT
    by simp
  have u: "Option.bind
         (decodeMultiSend exampleLib
            ''0x8d80ff0a0000000000000000000000000000000000000000000000000000000000000020000000000000000000000000000000000000000000000000000000000000005500aa00000000000000000000000000000000000001000000000000000000000000000000000000000000000000000000000000000000000000000000000000000000000000000000000000000000000000000000000000000000000000000000'')
         unpackRecords =
       Some [\<lparr>rec_operation = CALL,
              rec_to = [0xaa, 0, 0, 0, 0, 0, 0, 0, 0, 0, 0, 0, 0, 0, 0, 0, 0, 0, 0, 1],
              rec_value = 0, rec_data = []\<rparr>]"
    using decode_blobOf [OF p l, of exampleLib] by (simp only: h) (simp add: recordOf_txT)
  have b: "bytesOf ''0x00000000000000000000000000000000000000c0'' =
       [0, 0, 0, 0, 0, 0, 0, 0, 0, 0, 0, 0, 0, 0, 0, 0, 0, 0, 0, 0xc0]"
    by (simp add: bytesOf_def arrayify_def hexVal_def)
  have d: "length (bytesOf ''0xa9059cbb000000000000000000000000aa000000000000000000000000000000000000010000000000000000000000000000000000000000000000000000000000000102'') = 68"
    by (simp add: bytesOf_def arrayify_def hexVal_def)
  from e u encodeSingle_txT b d show ?thesis by (simp add: txT_def)
qed

text \<open>
  C2, amended. Whenever \<open>encodeMultiSend\<close> returns for a list of \<open>N\<close> entries whose
  \<open>to\<close> are addresses (and whose records together stay below \<open>2 ^ 256\<close> bytes, as
  any real list does), the blob inside the returned \<open>data\<close> splits into exactly \<open>N\<close>
  packed records, in input order: for every \<open>i < N\<close> the \<open>i\<close>-th record is that of the
  \<open>i\<close>-th entry as \<open>coerceTransactionInput\<close> normalizes it. It carries the declared
  operation of the entry (\<open>CALL\<close> when none is declared) and the properties of the
  intent: its \<open>to\<close>, its \<open>value\<close> (0 when it is absent, as in every transfer), its
  \<open>data\<close> (empty when it is absent, as in every intent but a raw call). These are the
  fields that \<open>encodeSingle\<close> gives for the intent exactly when it is a raw call or a
  transfer of no funds in the native currency; for any other transfer and for a contract
  call they are not.
\<close>

theorem encodeMultiSend_records_in_order:
  assumes "encodeMultiSend L (entriesOf xs) addressArg = Inr r"
    and "\<forall>tx \<in> set (entriesOf xs). toIsAddress tx"
    and "sum_list (map (\<lambda>tx. 85 + length (bytesOf (data (coerceTransactionInput tx))))
           (entriesOf xs)) < 2 ^ 256"
  shows "\<exists>blob recs.
           decodeMultiSend L (data r) = Some blob \<and>
           unpackRecords blob = Some recs \<and>
           length recs = length xs \<and>
           (\<forall>i < length xs.
              recs ! i = recordOf (coerceTransactionInput (entriesOf xs ! i)) \<and>
              carries (recs ! i) (case fst (xs ! i) of None \<Rightarrow> CALL | Some c \<Rightarrow> c)
                (case snd (xs ! i) of
                   TransferFunds t amount token \<Rightarrow> \<lparr>to = t, value = 0, data = ''0x''\<rparr>
                 | TransferCollectible f t tokenId address \<Rightarrow> \<lparr>to = t, value = 0, data = ''0x''\<rparr>
                 | CallContract t v abi sig inputValues \<Rightarrow>
                     \<lparr>to = t, value = (case v of None \<Rightarrow> 0 | Some n \<Rightarrow> n), data = ''0x''\<rparr>
                 | Raw t v d \<Rightarrow>
                     \<lparr>to = t, value = (case v of None \<Rightarrow> 0 | Some n \<Rightarrow> n),
                      data = (case d of None \<Rightarrow> ''0x'' | Some s \<Rightarrow> if s = [] then ''0x'' else s)\<rparr>) \<and>
              (\<exists>m. encodeSingle L (snd (xs ! i)) = Inr m \<and>
                   carries (recs ! i) (case fst (xs ! i) of None \<Rightarrow> CALL | Some c \<Rightarrow> c) m)
                = rawLike (snd (xs ! i)))"
proof -
  let ?txs = "entriesOf xs"
  let ?recs = "map (\<lambda>tx. recordOf (coerceTransactionInput tx)) ?txs"
  have n: "length ?txs = length xs" by (simp add: entriesOf_def)
  have p: "\<forall>tx \<in> set ?txs. packable tx" by (rule encodeMultiSend_Inr_packable [OF assms(1)])
  note r = encodeMultiSend_Inr_D [OF assms(1)]
  have l: "length (blobOf ?txs) < 2 ^ 256" using assms(3) by (simp add: length_blobOf [OF assms(2)])
  have 1: "decodeMultiSend L (data r) = Some (blobOf ?txs)"
    by (simp add: r decodeMultiSend_encoded [OF l])
  have pa: "\<forall>tx \<in> set ?txs. packable tx \<and> toIsAddress tx" using p assms(2) by simp
  have 2: "unpackRecords (blobOf ?txs) = Some ?recs"
    by (rule unpackRecords_blobOf [OF pa])
  have 3: "length ?recs = length xs" by (simp add: n)
  have 4: "\<forall>i < length xs.
              ?recs ! i = recordOf (coerceTransactionInput (entriesOf xs ! i)) \<and>
              carries (?recs ! i) (case fst (xs ! i) of None \<Rightarrow> CALL | Some c \<Rightarrow> c)
                (case snd (xs ! i) of
                   TransferFunds t amount token \<Rightarrow> \<lparr>to = t, value = 0, data = ''0x''\<rparr>
                 | TransferCollectible f t tokenId address \<Rightarrow> \<lparr>to = t, value = 0, data = ''0x''\<rparr>
                 | CallContract t v abi sig inputValues \<Rightarrow>
                     \<lparr>to = t, value = (case v of None \<Rightarrow> 0 | Some n \<Rightarrow> n), data = ''0x''\<rparr>
                 | Raw t v d \<Rightarrow>
                     \<lparr>to = t, value = (case v of None \<Rightarrow> 0 | Some n \<Rightarrow> n),
                      data = (case d of None \<Rightarrow> ''0x'' | Some s \<Rightarrow> if s = [] then ''0x'' else s)\<rparr>) \<and>
              (\<exists>m. encodeSingle L (snd (xs ! i)) = Inr m \<and>
                   carries (?recs ! i) (case fst (xs ! i) of None \<Rightarrow> CALL | Some c \<Rightarrow> c) m)
                = rawLike (snd (xs ! i))"
  proof (intro allI impI)
    fix i assume i: "i < length xs"
    obtain op x where ox: "xs ! i = (op, x)" by (cases "xs ! i")
    have e: "entriesOf xs ! i = entryOf op x" using i by (simp add: entriesOf_def ox)
    have ri: "?recs ! i = recordOf (coerceTransactionInput (entryOf op x))"
      using i n by (simp add: e)
    have c: "carries (recordOf (coerceTransactionInput (entryOf op x)))
                (case op of None \<Rightarrow> CALL | Some c \<Rightarrow> c)
                (case x of
                   TransferFunds t amount token \<Rightarrow> \<lparr>to = t, value = 0, data = ''0x''\<rparr>
                 | TransferCollectible f t tokenId address \<Rightarrow> \<lparr>to = t, value = 0, data = ''0x''\<rparr>
                 | CallContract t v abi sig inputValues \<Rightarrow>
                     \<lparr>to = t, value = (case v of None \<Rightarrow> 0 | Some n \<Rightarrow> n), data = ''0x''\<rparr>
                 | Raw t v d \<Rightarrow>
                     \<lparr>to = t, value = (case v of None \<Rightarrow> 0 | Some n \<Rightarrow> n),
                      data = (case d of None \<Rightarrow> ''0x'' | Some s \<Rightarrow> if s = [] then ''0x'' else s)\<rparr>)"
      by (cases x)
         (simp_all add: carries_def recordOf_def coerceTransactionInput_def orCall_case orZero_case
           orEmptyHex_case)
    have s: "(\<exists>m. encodeSingle L x = Inr m \<and>
                   carries (recordOf (coerceTransactionInput (entryOf op x)))
                     (case op of None \<Rightarrow> CALL | Some c \<Rightarrow> c) m)
                = rawLike x"
      using encodeSingle_carries [of L x op] by (simp only: orCall_case)
    show "?recs ! i = recordOf (coerceTransactionInput (entriesOf xs ! i)) \<and>
              carries (?recs ! i) (case fst (xs ! i) of None \<Rightarrow> CALL | Some c \<Rightarrow> c)
                (case snd (xs ! i) of
                   TransferFunds t amount token \<Rightarrow> \<lparr>to = t, value = 0, data = ''0x''\<rparr>
                 | TransferCollectible f t tokenId address \<Rightarrow> \<lparr>to = t, value = 0, data = ''0x''\<rparr>
                 | CallContract t v abi sig inputValues \<Rightarrow>
                     \<lparr>to = t, value = (case v of None \<Rightarrow> 0 | Some n \<Rightarrow> n), data = ''0x''\<rparr>
                 | Raw t v d \<Rightarrow>
                     \<lparr>to = t, value = (case v of None \<Rightarrow> 0 | Some n \<Rightarrow> n),
                      data = (case d of None \<Rightarrow> ''0x'' | Some s \<Rightarrow> if s = [] then ''0x'' else s)\<rparr>) \<and>
              (\<exists>m. encodeSingle L (snd (xs ! i)) = Inr m \<and>
                   carries (?recs ! i) (case fst (xs ! i) of None \<Rightarrow> CALL | Some c \<Rightarrow> c) m)
                = rawLike (snd (xs ! i))"
      unfolding ri ox fst_conv snd_conv e using c s by (intro conjI) (rule refl)
  qed
  show ?thesis
    apply (rule exI [of _ "blobOf ?txs"])
    apply (rule exI [of _ ?recs])
    using 1 2 3 4 by (intro conjI)
qed

theorem encodeMultiSend_records_in_order_witness:
  "entriesOf [(None, txT), (Some DELEGATE_CALL, txR)] = [entryOf None txT, txB]
   \<and> encodeMultiSend exampleLib (entriesOf [(None, txT), (Some DELEGATE_CALL, txR)]) None =
     Inr \<lparr>to = ''0x8D29bE29923b68abfDD21e541b9374737B49cdAD'', value = 0,
        data =
          ''0x8d80ff0a000000000000000000000000000000000000000000000000000000000000002000000000000000000000000000000000000000000000000000000000000000ac00aa000000000000000000000000000000000000010000000000000000000000000000000000000000000000000000000000000000000000000000000000000000000000000000000000000000000000000000000001aa000000000000000000000000000000000000020000000000000000000000000000000000000000000000000000000000000000000000000000000000000000000000000000000000000000000000000000000212340000000000000000000000000000000000000000'',
        operation = DELEGATE_CALL\<rparr>
   \<and> toIsAddress (entryOf None txT) \<and> toIsAddress txB
   \<and> (\<exists>blob. decodeMultiSend exampleLib
          ''0x8d80ff0a000000000000000000000000000000000000000000000000000000000000002000000000000000000000000000000000000000000000000000000000000000ac00aa000000000000000000000000000000000000010000000000000000000000000000000000000000000000000000000000000000000000000000000000000000000000000000000000000000000000000000000001aa000000000000000000000000000000000000020000000000000000000000000000000000000000000000000000000000000000000000000000000000000000000000000000000000000000000000000000000212340000000000000000000000000000000000000000''
          = Some blob \<and>
        unpackRecords blob =
          Some [\<lparr>rec_operation = CALL,
                 rec_to = [0xaa, 0, 0, 0, 0, 0, 0, 0, 0, 0, 0, 0, 0, 0, 0, 0, 0, 0, 0, 1],
                 rec_value = 0, rec_data = []\<rparr>,
                \<lparr>rec_operation = DELEGATE_CALL,
                 rec_to = [0xaa, 0, 0, 0, 0, 0, 0, 0, 0, 0, 0, 0, 0, 0, 0, 0, 0, 0, 0, 2],
                 rec_value = 0, rec_data = [0x12, 0x34]\<rparr>])
   \<and> rawLike txT = False \<and> rawLike txR = True"
proof -
  have es: "entriesOf [(None, txT), (Some DELEGATE_CALL, txR)] = [entryOf None txT, txB]"
    by (simp add: entriesOf_def entryOf_txR)
  note e0 = encodeMultiSend_txTB [of None, unfolded relayAddress_def MULTI_SEND_CONTRACT_ADDRESS_def option.case]
  have e: "encodeMultiSend exampleLib (entriesOf [(None, txT), (Some DELEGATE_CALL, txR)]) None =
     Inr \<lparr>to = ''0x8D29bE29923b68abfDD21e541b9374737B49cdAD'', value = 0,
        data =
          ''0x8d80ff0a000000000000000000000000000000000000000000000000000000000000002000000000000000000000000000000000000000000000000000000000000000ac00aa000000000000000000000000000000000000010000000000000000000000000000000000000000000000000000000000000000000000000000000000000000000000000000000000000000000000000000000001aa000000000000000000000000000000000000020000000000000000000000000000000000000000000000000000000000000000000000000000000000000000000000000000000000000000000000000000000212340000000000000000000000000000000000000000'',
        operation = DELEGATE_CALL\<rparr>"
    using e0 by (simp only: es)
  have a: "\<forall>tx \<in> set (entriesOf [(None, txT), (Some DELEGATE_CALL, txR)]). toIsAddress tx"
    by (simp add: es toIsAddress_txT toIsAddress_txB)
  have s: "sum_list (map (\<lambda>tx. 85 + length (bytesOf (data (coerceTransactionInput tx))))
             (entriesOf [(None, txT), (Some DELEGATE_CALL, txR)])) < 2 ^ 256"
    unfolding es
    by (simp add: coerceTransactionInput_def entryOf_txT txB_def orEmptyHex_def bytesOf_def arrayify_def
        hexVal_def)
  from encodeMultiSend_records_in_order [OF e a s]
  obtain blob recs where d: "decodeMultiSend exampleLib
          ''0x8d80ff0a000000000000000000000000000000000000000000000000000000000000002000000000000000000000000000000000000000000000000000000000000000ac00aa000000000000000000000000000000000000010000000000000000000000000000000000000000000000000000000000000000000000000000000000000000000000000000000000000000000000000000000001aa000000000000000000000000000000000000020000000000000000000000000000000000000000000000000000000000000000000000000000000000000000000000000000000000000000000000000000000212340000000000000000000000000000000000000000''
          = Some blob"
    and u: "unpackRecords blob = Some recs" and l: "length recs = 2"
    and 0: "recs ! 0 = recordOf (coerceTransactionInput (entriesOf [(None, txT), (Some DELEGATE_CALL, txR)] ! 0))"
    and 1: "recs ! 1 = recordOf (coerceTransactionInput (entriesOf [(None, txT), (Some DELEGATE_CALL, txR)] ! 1))"
    by fastforce
  from l obtain x y where "recs = [x, y]"
    by (cases recs; cases "tl recs"; cases "tl (tl recs)") auto
  with 0 1 have "recs = [recordOf (coerceTransactionInput (entryOf None txT)),
      recordOf (coerceTransactionInput txB)]"
    by (simp add: es)
  then have rr: "recs = [\<lparr>rec_operation = CALL,
                 rec_to = [0xaa, 0, 0, 0, 0, 0, 0, 0, 0, 0, 0, 0, 0, 0, 0, 0, 0, 0, 0, 1],
                 rec_value = 0, rec_data = []\<rparr>,
                \<lparr>rec_operation = DELEGATE_CALL,
                 rec_to = [0xaa, 0, 0, 0, 0, 0, 0, 0, 0, 0, 0, 0, 0, 0, 0, 0, 0, 0, 0, 2],
                 rec_value = 0, rec_data = [0x12, 0x34]\<rparr>]"
    by (simp only: recordOf_txT recordOf_txB)
  have k: "rawLike txT = False" "rawLike txR = True" by (simp_all add: txT_def txR_def)
  from d u have "\<exists>blob. decodeMultiSend exampleLib
          ''0x8d80ff0a000000000000000000000000000000000000000000000000000000000000002000000000000000000000000000000000000000000000000000000000000000ac00aa000000000000000000000000000000000000010000000000000000000000000000000000000000000000000000000000000000000000000000000000000000000000000000000000000000000000000000000001aa000000000000000000000000000000000000020000000000000000000000000000000000000000000000000000000000000000000000000000000000000000000000000000000000000000000000000000000212340000000000000000000000000000000000000000''
          = Some blob \<and>
        unpackRecords blob =
          Some [\<lparr>rec_operation = CALL,
                 rec_to = [0xaa, 0, 0, 0, 0, 0, 0, 0, 0, 0, 0, 0, 0, 0, 0, 0, 0, 0, 0, 1],
                 rec_value = 0, rec_data = []\<rparr>,
                \<lparr>rec_operation = DELEGATE_CALL,
                 rec_to = [0xaa, 0, 0, 0, 0, 0, 0, 0, 0, 0, 0, 0, 0, 0, 0, 0, 0, 0, 0, 2],
                 rec_value = 0, rec_data = [0x12, 0x34]\<rparr>]"
    unfolding rr by blast
  with es e toIsAddress_txT toIsAddress_txB k show ?thesis by (intro conjI)
qed

subsection \<open>A list of one entry\<close>

text \<open>
  C1, as the claim states it, fails, in two ways. First, \<open>encodeMultiSend\<close> has no
  case for a list of one entry and wraps it like any other list: on the raw call \<open>txA\<close>
  (\<open>to = 0xaa...01\<close>, value 1, no data) it returns the relay call (\<open>to\<close> the relay
  contract, operation \<open>DELEGATE_CALL\<close>, \<open>data\<close> a \<^verbatim>\<open>multiSend\<close> wrapping), where
  \<open>encodeSingle\<close> gives the call itself. Second, the dispatcher
  \<open>MultiSender.multiSend\<close>, which does have the case, passes on the properties of the
  entry and not what \<open>encodeSingle\<close> gives for it: for the token transfer \<open>txT\<close> it
  submits a call of the recipient \<^verbatim>\<open>0xaa...01\<close> with value 0 and no data, where
  \<open>encodeSingle\<close> gives a call of the token contract \<^verbatim>\<open>0x00...c0\<close> with the data of a
  \<^verbatim>\<open>transfer\<close>; and \<open>encodeMultiSend\<close> wraps this entry too.
\<close>

theorem single_entry_counterexample:
  "entryOf None (Raw ''0xaa00000000000000000000000000000000000001'' (Some 1) None) = txA
   \<and> encodeMultiSend exampleLib [txA] None =
       Inr \<lparr>to = ''0x8D29bE29923b68abfDD21e541b9374737B49cdAD'', value = 0,
          data =
            ''0x8d80ff0a0000000000000000000000000000000000000000000000000000000000000020000000000000000000000000000000000000000000000000000000000000005500aa00000000000000000000000000000000000001000000000000000000000000000000000000000000000000000000000000000100000000000000000000000000000000000000000000000000000000000000000000000000000000000000'',
          operation = DELEGATE_CALL\<rparr>
   \<and> encodeSingle exampleLib (Raw ''0xaa00000000000000000000000000000000000001'' (Some 1) None) =
       Inr \<lparr>to = ''0xaa00000000000000000000000000000000000001'', value = 1, data = ''0x''\<rparr>
   \<and> txT = TransferFunds ''0xaa00000000000000000000000000000000000001'' 258
             (Some ''0x00000000000000000000000000000000000000c0'')
   \<and> multiSend exampleLib (newMultiSender ''0x00000000000000000000000000000000000000a0'' None)
         [entryOf None txT] =
       Inr \<lparr>to = ''0xaa00000000000000000000000000000000000001'', value = 0, data = ''0x'',
            operation = CALL\<rparr>
   \<and> encodeMultiSend exampleLib [entryOf None txT] None =
       Inr \<lparr>to = ''0x8D29bE29923b68abfDD21e541b9374737B49cdAD'', value = 0,
          data =
            ''0x8d80ff0a0000000000000000000000000000000000000000000000000000000000000020000000000000000000000000000000000000000000000000000000000000005500aa00000000000000000000000000000000000001000000000000000000000000000000000000000000000000000000000000000000000000000000000000000000000000000000000000000000000000000000000000000000000000000000'',
          operation = DELEGATE_CALL\<rparr>
   \<and> encodeSingle exampleLib txT =
       Inr \<lparr>to = ''0x00000000000000000000000000000000000000c0'', value = 0,
            data = ''0xa9059cbb000000000000000000000000aa000000000000000000000000000000000000010000000000000000000000000000000000000000000000000000000000000102''\<rparr>"
proof -
  have 1: "entryOf None (Raw ''0xaa00000000000000000000000000000000000001'' (Some 1) None) = txA"
    by (simp add: txA_def)
  note 2 = encodeMultiSend_txA [of None, unfolded relayAddress_def MULTI_SEND_CONTRACT_ADDRESS_def option.case]
  have 3: "encodeSingle exampleLib (Raw ''0xaa00000000000000000000000000000000000001'' (Some 1) None) =
       Inr \<lparr>to = ''0xaa00000000000000000000000000000000000001'', value = 1, data = ''0x''\<rparr>"
    by (simp add: orZero_def orEmptyHex_def)
  have 4: "txT = TransferFunds ''0xaa00000000000000000000000000000000000001'' 258
             (Some ''0x00000000000000000000000000000000000000c0'')"
    by (rule txT_def)
  have 5: "multiSend exampleLib (newMultiSender ''0x00000000000000000000000000000000000000a0'' None)
         [entryOf None txT] =
       Inr \<lparr>to = ''0xaa00000000000000000000000000000000000001'', value = 0, data = ''0x'',
            operation = CALL\<rparr>"
    by (simp add: multiSend_single entryOf_txT coerceTransactionInput_def orZero_def orEmptyHex_def
        orCall_def)
  note 6 = encodeMultiSend_txT [of None, unfolded relayAddress_def MULTI_SEND_CONTRACT_ADDRESS_def option.case]
  from 1 2 3 4 5 6 encodeSingle_txT show ?thesis by (intro conjI)
qed

text \<open>
  C1, amended. The single-entry case is in the dispatcher: for every list of one entry,
  an intent \<open>x\<close> of any kind with or without a declared operation,
  \<open>MultiSender.multiSend\<close> submits \<open>coerceTransactionInput\<close> of the entry itself:
  the declared operation, \<open>CALL\<close> when none is declared; \<open>to\<close> of \<open>x\<close>; its
  \<open>value\<close> property, 0 when it is absent, as in every transfer; its \<open>data\<close>
  property, \<^verbatim>\<open>0x\<close> when it is absent, as in every intent but a raw call. This is what
  \<open>encodeSingle\<close> gives for \<open>x\<close> exactly when \<open>x\<close> is a raw call or a transfer of
  no funds in the native currency; it is not for any other transfer, nor for a contract
  call. It is never what \<open>encodeMultiSend\<close> gives for the same list, which, whenever
  it returns, is the relay call with operation \<open>DELEGATE_CALL\<close>.
\<close>

theorem multiSend_single_passthrough:
  "multiSend L this [entryOf op x] = Inr (coerceTransactionInput (entryOf op x)) \<and>
   operation (coerceTransactionInput (entryOf op x)) = (case op of None \<Rightarrow> CALL | Some c \<Rightarrow> c) \<and>
   MetaTransaction.truncate (coerceTransactionInput (entryOf op x)) =
     (case x of
        TransferFunds t amount token \<Rightarrow> \<lparr>to = t, value = 0, data = ''0x''\<rparr>
      | TransferCollectible f t tokenId address \<Rightarrow> \<lparr>to = t, value = 0, data = ''0x''\<rparr>
      | CallContract t v abi sig inputValues \<Rightarrow>
          \<lparr>to = t, value = (case v of None \<Rightarrow> 0 | Some n \<Rightarrow> n), data = ''0x''\<rparr>
      | Raw t v d \<Rightarrow>
          \<lparr>to = t, value = (case v of None \<Rightarrow> 0 | Some n \<Rightarrow> n),
           data = (case d of None \<Rightarrow> ''0x'' | Some s \<Rightarrow> if s = [] then ''0x'' else s)\<rparr>) \<and>
   (encodeSingle L x = Inr (MetaTransaction.truncate (coerceTransactionInput (entryOf op x))))
     = rawLike x \<and>
   multiSend L this [entryOf op x] \<noteq> encodeMultiSend L [entryOf op x] addressArg \<and>
   (\<forall>r. encodeMultiSend L [entryOf op x] addressArg = Inr r \<longrightarrow>
        operation r = DELEGATE_CALL \<and>
        to r = (case addressArg of
                  None \<Rightarrow> MULTI_SEND_CONTRACT_ADDRESS
                | Some a \<Rightarrow> if a = [] then MULTI_SEND_CONTRACT_ADDRESS else a))"
proof -
  let ?e = "entryOf op x"
  have 1: "multiSend L this [?e] = Inr (coerceTransactionInput ?e)"
    by (rule multiSend_single)
  have 2: "operation (coerceTransactionInput ?e) = (case op of None \<Rightarrow> CALL | Some c \<Rightarrow> c)"
    by (cases x) (simp_all add: coerceTransactionInput_def orCall_case)
  have 3: "MetaTransaction.truncate (coerceTransactionInput ?e) =
     (case x of
        TransferFunds t amount token \<Rightarrow> \<lparr>to = t, value = 0, data = ''0x''\<rparr>
      | TransferCollectible f t tokenId address \<Rightarrow> \<lparr>to = t, value = 0, data = ''0x''\<rparr>
      | CallContract t v abi sig inputValues \<Rightarrow>
          \<lparr>to = t, value = (case v of None \<Rightarrow> 0 | Some n \<Rightarrow> n), data = ''0x''\<rparr>
      | Raw t v d \<Rightarrow>
          \<lparr>to = t, value = (case v of None \<Rightarrow> 0 | Some n \<Rightarrow> n),
           data = (case d of None \<Rightarrow> ''0x'' | Some s \<Rightarrow> if s = [] then ''0x'' else s)\<rparr>)"
    by (cases x)
       (simp_all add: coerceTransactionInput_def MetaTransaction.truncate_def orZero_case
         orEmptyHex_case)
  have 4: "(encodeSingle L x = Inr (MetaTransaction.truncate (coerceTransactionInput ?e)))
     = rawLike x"
    by (rule encodeSingle_entryOf)
  have 5: "multiSend L this [?e] \<noteq> encodeMultiSend L [?e] addressArg"
    using encodeMultiSend_single_not_coerce [of L ?e addressArg] by (simp only: 1) simp
  have 6: "\<forall>r. encodeMultiSend L [?e] addressArg = Inr r \<longrightarrow>
        operation r = DELEGATE_CALL \<and>
        to r = (case addressArg of
                  None \<Rightarrow> MULTI_SEND_CONTRACT_ADDRESS
                | Some a \<Rightarrow> if a = [] then MULTI_SEND_CONTRACT_ADDRESS else a)"
  proof (intro allI impI)
    fix r assume "encodeMultiSend L [?e] addressArg = Inr r"
    from encodeMultiSend_Inr_D [OF this]
    show "operation r = DELEGATE_CALL \<and>
        to r = (case addressArg of
                  None \<Rightarrow> MULTI_SEND_CONTRACT_ADDRESS
                | Some a \<Rightarrow> if a = [] then MULTI_SEND_CONTRACT_ADDRESS else a)"
      by (simp add: relayAddress_def)
  qed
  from 1 2 3 4 5 6 show ?thesis by (intro conjI)
qed

theorem multiSend_single_passthrough_witness:
  "multiSend exampleLib (newMultiSender ''0x00000000000000000000000000000000000000a0'' None)
     [entryOf None txT] =
     Inr \<lparr>to = ''0xaa00000000000000000000000000000000000001'', value = 0, data = ''0x'',
          operation = CALL\<rparr> \<and>
   rawLike txT = False \<and>
   encodeSingle exampleLib txT \<noteq>
     Inr \<lparr>to = ''0xaa00000000000000000000000000000000000001'', value = 0, data = ''0x''\<rparr> \<and>
   encodeMultiSend exampleLib [entryOf None txT] None =
     Inr \<lparr>to = ''0x8D29bE29923b68abfDD21e541b9374737B49cdAD'', value = 0,
        data =
          ''0x8d80ff0a0000000000000000000000000000000000000000000000000000000000000020000000000000000000000000000000000000000000000000000000000000005500aa00000000000000000000000000000000000001000000000000000000000000000000000000000000000000000000000000000000000000000000000000000000000000000000000000000000000000000000000000000000000000000000'',
        operation = DELEGATE_CALL\<rparr> \<and>
   operation \<lparr>to = ''0x8D29bE29923b68abfDD21e541b9374737B49cdAD'', value = 0,
        data =
          ''0x8d80ff0a0000000000000000000000000000000000000000000000000000000000000020000000000000000000000000000000000000000000000000000000000000005500aa00000000000000000000000000000000000001000000000000000000000000000000000000000000000000000000000000000000000000000000000000000000000000000000000000000000000000000000000000000000000000000000'',
        operation = DELEGATE_CALL\<rparr> = DELEGATE_CALL"
proof -
  note t = multiSend_single_passthrough
    [of exampleLib "newMultiSender ''0x00000000000000000000000000000000000000a0'' None" None txT None]
  note e = encodeMultiSend_txT [of None, unfolded relayAddress_def MULTI_SEND_CONTRACT_ADDRESS_def option.case]
  have c: "coerceTransactionInput (entryOf None txT) =
     \<lparr>to = ''0xaa00000000000000000000000000000000000001'', value = 0, data = ''0x'',
      operation = CALL\<rparr>"
    by (simp add: entryOf_txT coerceTransactionInput_def orZero_def orEmptyHex_def orCall_def)
  have k: "rawLike txT = False" by (simp add: txT_def)
  from t have 1: "multiSend exampleLib (newMultiSender ''0x00000000000000000000000000000000000000a0'' None)
      [entryOf None txT] = Inr (coerceTransactionInput (entryOf None txT))"
    by (elim conjE)
  from t have "(encodeSingle exampleLib txT =
      Inr (MetaTransaction.truncate (coerceTransactionInput (entryOf None txT)))) = rawLike txT"
    by (elim conjE)
  then have 2: "encodeSingle exampleLib txT \<noteq>
     Inr \<lparr>to = ''0xaa00000000000000000000000000000000000001'', value = 0, data = ''0x''\<rparr>"
    by (simp add: c k MetaTransaction.truncate_def)
  from t e have 3: "operation \<lparr>to = ''0x8D29bE29923b68abfDD21e541b9374737B49cdAD'', value = 0,
        data =
          ''0x8d80ff0a0000000000000000000000000000000000000000000000000000000000000020000000000000000000000000000000000000000000000000000000000000005500aa00000000000000000000000000000000000001000000000000000000000000000000000000000000000000000000000000000000000000000000000000000000000000000000000000000000000000000000000000000000000000000000'',
        operation = DELEGATE_CALL\<rparr> = DELEGATE_CALL" by blast
  from 1 have 0: "multiSend exampleLib (newMultiSender ''0x00000000000000000000000000000000000000a0'' None)
     [entryOf None txT] =
     Inr \<lparr>to = ''0xaa00000000000000000000000000000000000001'', value = 0, data = ''0x'',
          operation = CALL\<rparr>"
    by (simp only: c)
  from 0 k 2 e 3 show ?thesis by (intro conjI)
qed

subsection \<open>The single-call encoder\<close>

text \<open>
  C5. For every transfer of funds with no token, \<open>encodeSingle\<close> returns exactly the
  recipient as \<open>to\<close>, the amount as value and \<^verbatim>\<open>0x\<close>, the empty byte string, as
  data.
\<close>

theorem encodeSingle_native_transfer:
  "encodeSingle L (TransferFunds recipient amount None) =
     Inr \<lparr>to = recipient, value = amount, data = ''0x''\<rparr>
   \<and> arrayify ''0x'' = Inr []"
  by (simp add: arrayify_def)

theorem encodeSingle_native_transfer_witness:
  "encodeSingle exampleLib (TransferFunds ''0xaa00000000000000000000000000000000000001'' 5 None) =
     Inr \<lparr>to = ''0xaa00000000000000000000000000000000000001'', value = 5, data = ''0x''\<rparr>"
  using encodeSingle_native_transfer [of exampleLib "''0xaa00000000000000000000000000000000000001''" 5]
  by simp

text \<open>
  C6. Whenever \<open>encodeSingle\<close> returns for a transfer of funds with a token (it does
  when the recipient is an address and the amount fits 256 bits, which holds of it when
  it returns), the result has the token as \<open>to\<close> and value 0, and decoding its data as
  a call of \<^verbatim>\<open>transfer(address,uint256)\<close> gives back the recipient's address and the
  amount.
\<close>

theorem encodeSingle_token_transfer_roundtrip:
  assumes "encodeSingle L (TransferFunds recipient amount (Some token)) = Inr m"
  shows "to m = token \<and> value m = 0 \<and> amount < 2 ^ 256 \<and>
         (\<exists>a. getAddress L recipient = Some a \<and>
              data m = hexlify (sighashBytes L ''transfer(address,uint256)'' @
                         word32 (unat a) @ word32 amount) \<and>
              decodeTransfer L (data m) = Some (a, amount))"
proof -
  from assms obtain d where d: "encodeErc20Transfer L recipient amount = Inr d"
    and m: "m = \<lparr>to = token, value = 0, data = d\<rparr>"
    by (auto simp: bind_err_Inr_iff)
  from d obtain a where a: "getAddress L recipient = Some a" and r: "amount < 2 ^ 256"
    and h: "d = hexlify (sighashBytes L ''transfer(address,uint256)'' @
                  word32 (unat a) @ word32 amount)"
    by (auto simp: encodeErc20Transfer_eq split: option.splits if_splits)
  have "decodeTransfer L d = Some (a, amount)"
    unfolding h by (rule decodeTransfer_encoded [OF r])
  with a r h show ?thesis by (simp add: m)
qed

theorem encodeSingle_token_transfer_roundtrip_witness:
  "encodeSingle exampleLib
     (TransferFunds ''0xaa00000000000000000000000000000000000001'' 258
        (Some ''0x00000000000000000000000000000000000000c0'')) =
     Inr \<lparr>to = ''0x00000000000000000000000000000000000000c0'', value = 0,
          data = ''0xa9059cbb000000000000000000000000aa000000000000000000000000000000000000010000000000000000000000000000000000000000000000000000000000000102''\<rparr>
   \<and> decodeTransfer exampleLib
        ''0xa9059cbb000000000000000000000000aa000000000000000000000000000000000000010000000000000000000000000000000000000000000000000000000000000102''
       = Some (0xaa00000000000000000000000000000000000001, 258)"
proof -
  have e: "encodeSingle exampleLib
     (TransferFunds ''0xaa00000000000000000000000000000000000001'' 258
        (Some ''0x00000000000000000000000000000000000000c0'')) =
     Inr \<lparr>to = ''0x00000000000000000000000000000000000000c0'', value = 0,
          data = ''0xa9059cbb000000000000000000000000aa000000000000000000000000000000000000010000000000000000000000000000000000000000000000000000000000000102''\<rparr>"
    by (simp add: encodeErc20Transfer_eq exampleLib_getAddress bind_err_def)
       (simp add: sighashBytes_def exampleLib_def word32_def hex_eval)
  from encodeSingle_token_transfer_roundtrip [OF e] exampleLib_getAddress
  have "decodeTransfer exampleLib
        ''0xa9059cbb000000000000000000000000aa000000000000000000000000000000000000010000000000000000000000000000000000000000000000000000000000000102''
       = Some (0xaa00000000000000000000000000000000000001, 258)"
    by auto
  with e show ?thesis by (intro conjI)
qed

text \<open>
  C7 does not hold of the code. \<^verbatim>\<open>tx.inputValues[input.name]\<close> is a property
  lookup, and for a parameter whose name is that of a member of \<^verbatim>\<open>Object.prototype\<close>
  it finds the inherited member where no value is supplied; the member is truthy, so the
  default is not taken. For the function \<^verbatim>\<open>p(bool valueOf)\<close> and input values with
  no property at all, the lookup of \<^verbatim>\<open>valueOf\<close> gives the inherited function, and the
  calldata of \<open>encodeFunctionCall\<close> and of \<open>encodeSingle\<close> is the selector followed
  by the word 1, the encoding of true; the default of \<^verbatim>\<open>bool\<close> is false, and the
  encoding with the default in this place is the selector followed by the zero word. This
  is so for every selector function and address parser of the library.
\<close>

theorem encodeFunctionCall_inherited_member:
  "valueOfInterface = [\<lparr>signature = ''p(bool)'', inputs = [(''valueOf'', TBool)]\<rparr>] \<and>
   noInputValues ''valueOf'' = None \<and>
   getProperty noInputValues ''valueOf'' = Some (VObject (Some 0)) \<and>
   encodeFunctionCall L valueOfInterface ''p(bool)'' noInputValues =
     Inr (hexlify (sighashBytes L ''p(bool)'' @ replicate 31 0 @ [1])) \<and>
   encodeSingle L (CallContract recipient None valueOfInterface ''p(bool)'' noInputValues) =
     Inr \<lparr>to = recipient, value = 0,
          data = hexlify (sighashBytes L ''p(bool)'' @ replicate 31 0 @ [1])\<rparr> \<and>
   defaultValue TBool = VBool False \<and>
   encodeFunctionData L valueOfInterface ''p(bool)'' [defaultValue TBool] =
     Inr (hexlify (sighashBytes L ''p(bool)'' @ replicate 32 0))"
proof -
  have w1: "word32 1 = replicate 31 0 @ [1]"
    by (simp add: word32_def be_bytes_numeral be_bytes_zero)
  have 1: "encodeFunctionCall L valueOfInterface ''p(bool)'' noInputValues =
     Inr (hexlify (sighashBytes L ''p(bool)'' @ replicate 31 0 @ [1]))"
    using encodeFunctionCall_valueOf [of L] by (simp only: w1)
  have 2: "encodeSingle L (CallContract recipient None valueOfInterface ''p(bool)'' noInputValues) =
     Inr \<lparr>to = recipient, value = 0,
          data = hexlify (sighashBytes L ''p(bool)'' @ replicate 31 0 @ [1])\<rparr>"
    by (simp add: 1 bind_err_def orZero_def)
  have 3: "encodeFunctionData L valueOfInterface ''p(bool)'' [defaultValue TBool] =
     Inr (hexlify (sighashBytes L ''p(bool)'' @ replicate 32 0))"
    by (simp add: encodeFunctionData_valueOf word32_zero)
  have 4: "noInputValues ''valueOf'' = None" by (simp add: noInputValues_def)
  have 5: "defaultValue TBool = VBool False" by simp
  from valueOfInterface_def 4 valueOf_inherited 1 2 5 3 show ?thesis by (intro conjI)
qed

theorem encodeFunctionCall_inherited_member_witness:
  "encodeSingle exampleLib
     (CallContract ''0xaa00000000000000000000000000000000000001'' None
        [\<lparr>signature = ''p(bool)'', inputs = [(''valueOf'', TBool)]\<rparr>] ''p(bool)'' noInputValues) =
     Inr \<lparr>to = ''0xaa00000000000000000000000000000000000001'', value = 0,
          data = ''0x705682160000000000000000000000000000000000000000000000000000000000000001''\<rparr> \<and>
   encodeFunctionData exampleLib [\<lparr>signature = ''p(bool)'', inputs = [(''valueOf'', TBool)]\<rparr>]
     ''p(bool)'' [VBool False] =
     Inr ''0x705682160000000000000000000000000000000000000000000000000000000000000000''"
proof -
  note t = encodeFunctionCall_inherited_member
    [of exampleLib "''0xaa00000000000000000000000000000000000001''"]
  have h1: "hexlify (sighashBytes exampleLib ''p(bool)'' @ replicate 31 0 @ [1]) =
      ''0x705682160000000000000000000000000000000000000000000000000000000000000001''"
    by (simp add: sighashBytes_def exampleLib_def hex_eval)
  have h0: "hexlify (sighashBytes exampleLib ''p(bool)'' @ replicate 32 0) =
      ''0x705682160000000000000000000000000000000000000000000000000000000000000000''"
    by (simp add: sighashBytes_def exampleLib_def hex_eval)
  from t have i: "valueOfInterface = [\<lparr>signature = ''p(bool)'', inputs = [(''valueOf'', TBool)]\<rparr>]"
    by (elim conjE)
  from t have 1: "encodeSingle exampleLib
     (CallContract ''0xaa00000000000000000000000000000000000001'' None valueOfInterface
        ''p(bool)'' noInputValues) =
     Inr \<lparr>to = ''0xaa00000000000000000000000000000000000001'', value = 0,
          data = hexlify (sighashBytes exampleLib ''p(bool)'' @ replicate 31 0 @ [1])\<rparr>"
    by (elim conjE)
  from t have 2: "encodeFunctionData exampleLib valueOfInterface ''p(bool)'' [defaultValue TBool] =
     Inr (hexlify (sighashBytes exampleLib ''p(bool)'' @ replicate 32 0))"
    by (elim conjE)
  have d: "defaultValue TBool = VBool False" by simp
  from 1 2 show ?thesis unfolding h1 h0 i d by (intro conjI)
qed

text \<open>
  Apart from inherited members the rule of the default holds. Let the interface declare
  the function, and let the lookup find, for each of its parameters, either nothing or a
  value of the JavaScript form of the parameter's type (so an inherited member is found
  for none). Then the calldata is the encoding of the argument list that has, at the
  position of each parameter, the value found, and where none is found the default of
  its type: 0 for an integer, the zero address, \<^verbatim>\<open>0x\<close> for bytes, the empty string,
  false for \<^verbatim>\<open>bool\<close>, each of which encodes as a zero word. When all parameters are of
  one-word types, the word at position \<open>i\<close> of the calldata, after the four bytes of the
  selector, is the encoding of the \<open>i\<close>-th of these values. The example is a
  \<^verbatim>\<open>transfer\<close> with the recipient left out.
\<close>

lemma encodeFunctionCall_supplied_or_default:
  assumes "functionsOf abi sig = Some f"
    and "\<forall>(name, ty) \<in> set (inputs f). \<forall>v. getProperty inputValues name = Some v \<longrightarrow> conforms ty v"
  shows
    "encodeFunctionCall L abi sig inputValues =
       encodeFunctionData L abi sig (suppliedOrDefault (getProperty inputValues) (inputs f)) \<and>
     length (suppliedOrDefault (getProperty inputValues) (inputs f)) = length (inputs f) \<and>
     (\<forall>i < length (inputs f).
        (getProperty inputValues (fst (inputs f ! i)) = None \<longrightarrow>
           suppliedOrDefault (getProperty inputValues) (inputs f) ! i = defaultValue (snd (inputs f ! i))) \<and>
        (\<forall>v. getProperty inputValues (fst (inputs f ! i)) = Some v \<longrightarrow>
           suppliedOrDefault (getProperty inputValues) (inputs f) ! i = v)) \<and>
     defaultValue (TUInt n) = VNum 0 \<and> defaultValue (TInt n) = VNum 0 \<and>
     defaultValue TAddress = VStr ''0x0000000000000000000000000000000000000000'' \<and>
     defaultValue TBool = VBool False \<and>
     defaultValue TBytes = VStr ''0x'' \<and> defaultValue TString = VStr [] \<and>
     encode L (TUInt n) (VNum 0) = Inr (replicate 32 0) \<and>
     encode L (TInt n) (VNum 0) = Inr (replicate 32 0) \<and>
     encode L TBool (VBool False) = Inr (replicate 32 0) \<and>
     encode L TBytes (VStr ''0x'') = Inr (replicate 32 0) \<and>
     encode L TString (VStr []) = Inr (replicate 32 0) \<and>
     (getAddress L ''0x0000000000000000000000000000000000000000'' = Some 0 \<longrightarrow>
        encode L TAddress (VStr ''0x0000000000000000000000000000000000000000'') =
          Inr (replicate 32 0)) \<and>
     (\<forall>d. CHR ''('' \<in> set sig \<and> list_all wordType (map snd (inputs f)) \<and>
          encodeFunctionCall L abi sig inputValues = Inr d \<longrightarrow>
          length (bytesOf d) = 4 + 32 * length (inputs f) \<and>
          (\<forall>i < length (inputs f).
             encode L (snd (inputs f ! i)) (suppliedOrDefault (getProperty inputValues) (inputs f) ! i) =
               Inr (take 32 (drop (4 + 32 * i) (bytesOf d)))))"
proof -
  let ?vs = "suppliedOrDefault (getProperty inputValues) (inputs f)"
  have 1: "encodeFunctionCall L abi sig inputValues = encodeFunctionData L abi sig ?vs"
    by (simp add: encodeFunctionCall_def assms(1)
        map_orDefault_conforms [of "inputs f" "getProperty inputValues", OF assms(2)])
  have 2: "length ?vs = length (inputs f)" by (simp add: suppliedOrDefault_def)
  have 3: "\<forall>i < length (inputs f).
        (getProperty inputValues (fst (inputs f ! i)) = None \<longrightarrow> ?vs ! i = defaultValue (snd (inputs f ! i))) \<and>
        (\<forall>v. getProperty inputValues (fst (inputs f ! i)) = Some v \<longrightarrow> ?vs ! i = v)"
    by (simp add: suppliedOrDefault_def case_prod_unfold)
  have 4: "encode L (TUInt n) (VNum 0) = Inr (replicate 32 0)"
    and 5: "encode L (TInt n) (VNum 0) = Inr (replicate 32 0)"
    and 6: "encode L TBool (VBool False) = Inr (replicate 32 0)"
    and 7: "encode L TBytes (VStr ''0x'') = Inr (replicate 32 0)"
    and 8: "encode L TString (VStr []) = Inr (replicate 32 0)"
    by (simp_all add: word32_zero arrayify_def bind_err_def padRight_def)
  have 9: "getAddress L ''0x0000000000000000000000000000000000000000'' = Some 0 \<longrightarrow>
        encode L TAddress (VStr ''0x0000000000000000000000000000000000000000'') =
          Inr (replicate 32 0)"
    by (simp add: word32_zero)
  have 10: "\<forall>d. CHR ''('' \<in> set sig \<and> list_all wordType (map snd (inputs f)) \<and>
          encodeFunctionCall L abi sig inputValues = Inr d \<longrightarrow>
          length (bytesOf d) = 4 + 32 * length (inputs f) \<and>
          (\<forall>i < length (inputs f).
             encode L (snd (inputs f ! i)) (?vs ! i) =
               Inr (take 32 (drop (4 + 32 * i) (bytesOf d))))"
  proof (intro allI impI, elim conjE)
    fix d
    assume p: "CHR ''('' \<in> set sig" and w: "list_all wordType (map snd (inputs f))"
      and d: "encodeFunctionCall L abi sig inputValues = Inr d"
    from d have "encodeFunctionData L abi sig ?vs = Inr d" by (simp only: 1)
    from encodeFunctionData_wordTypes [OF assms(1) p w this]
    show "length (bytesOf d) = 4 + 32 * length (inputs f) \<and>
          (\<forall>i < length (inputs f).
             encode L (snd (inputs f ! i)) (?vs ! i) =
               Inr (take 32 (drop (4 + 32 * i) (bytesOf d))))" .
  qed
  from 1 2 3 4 5 6 7 8 9 10 show ?thesis by simp
qed

lemma encodeFunctionCall_supplied_or_default_example:
  "functionsOf erc20Interface ''transfer(address,uint256)'' =
     Some \<lparr>signature = ''transfer(address,uint256)'',
           inputs = [(''recipient'', TAddress), (''amount'', TUInt 256)]\<rparr> \<and>
   getProperty amountOnly ''recipient'' = None \<and>
   getProperty amountOnly ''amount'' = Some (VNum 7) \<and>
   conforms (TUInt 256) (VNum 7) \<and>
   encodeFunctionCall exampleLib erc20Interface ''transfer(address,uint256)'' amountOnly =
     Inr ''0xa9059cbb00000000000000000000000000000000000000000000000000000000000000000000000000000000000000000000000000000000000000000000000000000007'' \<and>
   take 32 (drop 4 (bytesOf ''0xa9059cbb00000000000000000000000000000000000000000000000000000000000000000000000000000000000000000000000000000000000000000000000000000007''))
     = replicate 32 0"
proof -
  let ?f = "\<lparr>signature = ''transfer(address,uint256)'',
           inputs = [(''recipient'', TAddress), (''amount'', TUInt 256)]\<rparr>"
  let ?d = "''0xa9059cbb00000000000000000000000000000000000000000000000000000000000000000000000000000000000000000000000000000000000000000000000000000007''"
  have h1: "functionsOf erc20Interface ''transfer(address,uint256)'' = Some ?f"
    by (simp add: functionsOf_def erc20Interface_def)
  have h2: "\<forall>(name, ty) \<in> set (inputs ?f). \<forall>v. getProperty amountOnly name = Some v \<longrightarrow> conforms ty v"
    by (simp add: amountOnly_def getProperty_def objectPrototype_def)
  note t = encodeFunctionCall_supplied_or_default [OF h1 h2, of exampleLib 256]
  have vs': "suppliedOrDefault (getProperty amountOnly) [(''recipient'', TAddress), (''amount'', TUInt 256)] =
      [VStr ''0x0000000000000000000000000000000000000000'', VNum 7]"
    by (simp add: suppliedOrDefault_def amountOnly_def getProperty_def objectPrototype_def)
  then have vs: "suppliedOrDefault (getProperty amountOnly) (inputs ?f) =
      [VStr ''0x0000000000000000000000000000000000000000'', VNum 7]"
    by simp
  have "encodeFunctionData exampleLib erc20Interface ''transfer(address,uint256)''
          [VStr ''0x0000000000000000000000000000000000000000'', VNum (int 7)] = Inr ?d"
    unfolding encodeErc20Transfer_def [symmetric]
    by (simp add: encodeErc20Transfer_eq exampleLib_getAddress_zero)
       (simp add: sighashBytes_def exampleLib_def word32_def hex_eval)
  note ed = this
  have t1: "encodeFunctionCall exampleLib erc20Interface ''transfer(address,uint256)'' amountOnly =
       encodeFunctionData exampleLib erc20Interface ''transfer(address,uint256)''
         (suppliedOrDefault (getProperty amountOnly) (inputs ?f))"
    using t by (elim conjE)
  have e: "encodeFunctionCall exampleLib erc20Interface ''transfer(address,uint256)'' amountOnly
      = Inr ?d"
    using ed by (simp only: t1 vs) simp
  have p: "CHR ''('' \<in> set ''transfer(address,uint256)''" by simp
  have w: "list_all wordType (map snd (inputs ?f))" by simp
  have t10: "\<forall>d. CHR ''('' \<in> set ''transfer(address,uint256)'' \<and>
          list_all wordType (map snd (inputs ?f)) \<and>
          encodeFunctionCall exampleLib erc20Interface ''transfer(address,uint256)'' amountOnly = Inr d \<longrightarrow>
          length (bytesOf d) = 4 + 32 * length (inputs ?f) \<and>
          (\<forall>i < length (inputs ?f).
             encode exampleLib (snd (inputs ?f ! i)) (suppliedOrDefault (getProperty amountOnly) (inputs ?f) ! i) =
               Inr (take 32 (drop (4 + 32 * i) (bytesOf d))))"
    using t by (elim conjE)
  from t10 p w e have "\<forall>i < length (inputs ?f).
             encode exampleLib (snd (inputs ?f ! i)) (suppliedOrDefault (getProperty amountOnly) (inputs ?f) ! i) =
               Inr (take 32 (drop (4 + 32 * i) (bytesOf ?d)))"
    by blast
  then have "0 < length (inputs ?f) \<longrightarrow>
      encode exampleLib (snd (inputs ?f ! 0)) (suppliedOrDefault (getProperty amountOnly) (inputs ?f) ! 0) =
      Inr (take 32 (drop (4 + 32 * 0) (bytesOf ?d)))"
    by (rule spec)
  moreover have "0 < length (inputs ?f)" by simp
  ultimately have "encode exampleLib (snd (inputs ?f ! 0)) (suppliedOrDefault (getProperty amountOnly) (inputs ?f) ! 0) =
      Inr (take 32 (drop (4 + 32 * 0) (bytesOf ?d)))"
    by (rule mp)
  then have z: "take 32 (drop 4 (bytesOf ?d)) = replicate 32 0"
    by (simp add: vs' exampleLib_getAddress_zero word32_zero)
  have a: "getProperty amountOnly ''recipient'' = None"
    "getProperty amountOnly ''amount'' = Some (VNum 7)"
    by (simp_all add: amountOnly_def getProperty_def objectPrototype_def)
  from h1 a e z show ?thesis by simp
qed

end
